theory Spec2Isabelle
  imports Complex_Main
begin

section \<open>Tensors: values and the autograd graph\<close>

text \<open>
  A torch tensor is modelled by its flattened values over the reals (the rounding of
  floating point is not modelled) together with the set of graph leaves that a
  \<^verbatim>\<open>backward()\<close> started at this tensor reaches. \<^verbatim>\<open>detach()\<close> keeps the values and cuts
  the graph. A zero-dimensional tensor (a loss) is a tensor with one value.
  Elementwise operations pair the values position by position; the model is meant for
  operands of equal size, as the program uses them (torch rejects or broadcasts others).
  The mean of an empty tensor is \<^verbatim>\<open>nan\<close> in torch and is outside this model.
\<close>

record tensor =
  data :: "real list"
  leaves :: "string set"

definition detach :: "tensor \<Rightarrow> tensor" where
  "detach t = t\<lparr>leaves := {}\<rparr>"

definition t_add :: "tensor \<Rightarrow> tensor \<Rightarrow> tensor" where
  "t_add a b = \<lparr>data = map2 (+) (data a) (data b), leaves = leaves a \<union> leaves b\<rparr>"

definition t_sub :: "tensor \<Rightarrow> tensor \<Rightarrow> tensor" where
  "t_sub a b = \<lparr>data = map2 (-) (data a) (data b), leaves = leaves a \<union> leaves b\<rparr>"

definition t_mul :: "tensor \<Rightarrow> tensor \<Rightarrow> tensor" where
  "t_mul a b = \<lparr>data = map2 (*) (data a) (data b), leaves = leaves a \<union> leaves b\<rparr>"

definition t_scale :: "real \<Rightarrow> tensor \<Rightarrow> tensor" where
  \<comment> \<open>a Python float times a tensor\<close>
  "t_scale c t = \<lparr>data = map ((*) c) (data t), leaves = leaves t\<rparr>"

definition t_add_const :: "real \<Rightarrow> tensor \<Rightarrow> tensor" where
  \<comment> \<open>a Python number plus a tensor\<close>
  "t_add_const c t = \<lparr>data = map ((+) c) (data t), leaves = leaves t\<rparr>"

definition t_neg :: "tensor \<Rightarrow> tensor" where
  "t_neg t = \<lparr>data = map uminus (data t), leaves = leaves t\<rparr>"

definition t_pow :: "tensor \<Rightarrow> nat \<Rightarrow> tensor" where
  "t_pow t n = \<lparr>data = map (\<lambda>x. x ^ n) (data t), leaves = leaves t\<rparr>"

definition mean_val :: "real list \<Rightarrow> real" where
  "mean_val xs = sum_list xs / real (length xs)"

definition t_mean :: "tensor \<Rightarrow> tensor" where
  "t_mean t = \<lparr>data = [mean_val (data t)], leaves = leaves t\<rparr>"

definition t_cat :: "tensor list \<Rightarrow> tensor" where
  \<comment> \<open>the slots of a table seen as one flat tensor (\<^verbatim>\<open>view(-1, ...)\<close>)\<close>
  "t_cat ts = \<lparr>data = concat (map data ts), leaves = \<Union> (set (map leaves ts))\<rparr>"

definition mse_loss :: "tensor \<Rightarrow> tensor \<Rightarrow> tensor" where
  \<comment> \<open>\<^verbatim>\<open>F.mse_loss(input, target)\<close> with the default mean reduction\<close>
  "mse_loss inp target = t_mean (t_pow (t_sub inp target) 2)"

definition view_rows :: "nat \<Rightarrow> real list \<Rightarrow> real list list" where
  \<comment> \<open>\<^verbatim>\<open>view(-1, k)\<close>: the flat values as rows of \<open>k\<close>\<close>
  "view_rows k xs = map (\<lambda>i. take k (drop (i * k) xs)) [0..<length xs div k]"

definition nll_row :: "real list \<Rightarrow> nat \<Rightarrow> real" where
  \<comment> \<open>minus the log of the softmax probability of class \<open>a\<close>\<close>
  "nll_row logits a = ln (sum_list (map exp logits)) - logits ! a"

definition cross_entropy :: "real list list \<Rightarrow> nat list \<Rightarrow> real" where
  \<comment> \<open>\<^verbatim>\<open>F.cross_entropy\<close> with the default mean reduction, on rows of logits\<close>
  "cross_entropy rows targets = mean_val (map2 nll_row rows targets)"

section \<open>Configuration\<close>

text \<open>
  Modelled from the spec: the coefficient schedule behind \<^verbatim>\<open>params.curiosity_coeff\<close>
  (its class is not part of \<^verbatim>\<open>train.py\<close>): a single value, a decay rule applied once per
  \<^verbatim>\<open>step()\<close> (multiplicative or linear), and a step counter.
\<close>

datatype decay_rule = Multiplicative real | Linear real

record schedule =
  sched_value :: real
  sched_rule :: decay_rule
  sched_steps :: nat

fun decay :: "decay_rule \<Rightarrow> real \<Rightarrow> real" where
  "decay (Multiplicative f) v = f * v"
| "decay (Linear d) v = v - d"

definition sched_step :: "schedule \<Rightarrow> schedule" where
  "sched_step c = c\<lparr>sched_value := decay (sched_rule c) (sched_value c),
                    sched_steps := Suc (sched_steps c)\<rparr>"

record params =
  env_name :: string
  num_updates :: nat
  rollout_size :: nat
  num_envs :: nat
  n_stack :: nat
  value_coeff :: real
  entropy_coeff :: real
  max_grad_norm :: real
  curiosity_coeff :: schedule

section \<open>Loss assembly of the Runner\<close>

definition a2c_loss :: "params \<Rightarrow> tensor \<Rightarrow> tensor \<Rightarrow> tensor \<Rightarrow> tensor" where
  "a2c_loss p entropy policy_loss value_loss =
     t_sub (t_add policy_loss (t_scale (value_coeff p) value_loss))
           (t_scale (entropy_coeff p) entropy)"

definition loss_fwd :: "tensor \<Rightarrow> tensor \<Rightarrow> tensor" where
  \<comment> \<open>forward loss of \<^verbatim>\<open>icm_loss\<close>: how good features can be predicted\<close>
  "loss_fwd feature_preds features = mse_loss feature_preds features"

definition loss_inv :: "nat \<Rightarrow> tensor \<Rightarrow> nat list \<Rightarrow> tensor" where
  \<comment> \<open>inverse loss of \<^verbatim>\<open>icm_loss\<close>: how good is the action estimate between states\<close>
  "loss_inv n_actions action_preds acts =
     \<lparr>data = [cross_entropy (view_rows n_actions (data action_preds)) acts],
      leaves = leaves action_preds\<rparr>"

definition icm_loss :: "nat \<Rightarrow> tensor \<Rightarrow> tensor \<Rightarrow> tensor \<Rightarrow> nat list \<Rightarrow> tensor" where
  "icm_loss n_actions features feature_preds action_preds acts =
     t_add (loss_fwd feature_preds features) (loss_inv n_actions action_preds acts)"

definition curiosity_loss :: "tensor \<Rightarrow> tensor \<Rightarrow> tensor" where
  \<comment> \<open>\<^verbatim>\<open>(storage.features[1:].view(-1, feature_size) - feature_pred.detach()).pow(2).mean()\<close>\<close>
  "curiosity_loss stored_next feature_pred =
     t_mean (t_pow (t_sub stored_next (detach feature_pred)) 2)"

definition total_loss ::
  "params \<Rightarrow> nat \<Rightarrow> tensor \<Rightarrow> tensor \<Rightarrow> tensor \<Rightarrow> tensor \<Rightarrow> tensor \<Rightarrow> tensor \<Rightarrow> tensor
     \<Rightarrow> nat list \<Rightarrow> tensor" where
  \<comment> \<open>lines 63 to 72 of \<^verbatim>\<open>Runner.train\<close>\<close>
  "total_loss p n_actions stored_next entropy policy_loss value_loss feature feature_pred
       a_t_pred acts =
     t_sub (t_add (a2c_loss p entropy policy_loss value_loss)
                  (icm_loss n_actions feature feature_pred a_t_pred acts))
           (t_scale (sched_value (curiosity_coeff p)) (curiosity_loss stored_next feature_pred))"

section \<open>The rollout storage\<close>

text \<open>
  Modelled from the spec: the class \<^verbatim>\<open>RolloutStorage\<close> (module \<^verbatim>\<open>storage\<close>, not part of
  \<^verbatim>\<open>train.py\<close>). The tables are indexed by the time step; a slot is filled when the map
  is defined there, and an unfilled slot reads as the empty tensor. \<open>insert\<close> writes all
  per-step fields at index \<open>t\<close> and the observation into state slot \<open>t + 1\<close>;
  \<open>get_state\<close> is a read; \<open>after_update\<close> reseeds slot 0 from the last observed
  state and releases everything else. The discount factor is a constant of the storage.
\<close>

type_synonym obs = "real list"
type_synonym infos = "(string \<times> real) list list"

record storage =
  st_rollout_size :: nat
  st_num_envs :: nat
  frame_shape :: "nat list"
  st_n_stack :: nat
  st_is_cuda :: bool
  discount :: real
  states :: "nat \<rightharpoonup> obs"
  actions :: "nat \<rightharpoonup> nat list"
  log_probs :: "nat \<rightharpoonup> tensor"
  state_values :: "nat \<rightharpoonup> tensor"
  rewards :: "nat \<rightharpoonup> real list"
  dones :: "nat \<rightharpoonup> bool list"
  features :: "nat \<rightharpoonup> tensor"

definition RolloutStorage :: "real \<Rightarrow> nat \<Rightarrow> nat \<Rightarrow> nat list \<Rightarrow> nat \<Rightarrow> bool \<Rightarrow> storage" where
  "RolloutStorage gamma T N shape stack cuda =
     \<lparr>st_rollout_size = T, st_num_envs = N, frame_shape = shape, st_n_stack = stack,
      st_is_cuda = cuda, discount = gamma, states = Map.empty, actions = Map.empty,
      log_probs = Map.empty, state_values = Map.empty, rewards = Map.empty,
      dones = Map.empty, features = Map.empty\<rparr>"

definition slot_t :: "(nat \<rightharpoonup> tensor) \<Rightarrow> nat \<Rightarrow> tensor" where
  "slot_t tbl t = (case tbl t of Some x \<Rightarrow> x | None \<Rightarrow> \<lparr>data = [], leaves = {}\<rparr>)"

definition slot_l :: "(nat \<rightharpoonup> 'a list) \<Rightarrow> nat \<Rightarrow> 'a list" where
  "slot_l tbl t = (case tbl t of Some x \<Rightarrow> x | None \<Rightarrow> [])"

definition reset_initial :: "storage \<Rightarrow> obs \<Rightarrow> storage" where
  \<comment> \<open>\<^verbatim>\<open>states[0].copy_(obs2tensor(obs))\<close>\<close>
  "reset_initial st ob = st\<lparr>states := (states st)(0 \<mapsto> ob)\<rparr>"

definition get_state :: "storage \<Rightarrow> nat \<Rightarrow> obs" where
  "get_state st t = slot_l (states st) t"

definition storage_insert ::
  "storage \<Rightarrow> nat \<Rightarrow> real list \<Rightarrow> obs \<Rightarrow> nat list \<Rightarrow> tensor \<Rightarrow> tensor \<Rightarrow> bool list \<Rightarrow> tensor
     \<Rightarrow> storage" where
  "storage_insert st t reward ob action log_prob val don feature =
     st\<lparr>states := (states st)(Suc t \<mapsto> ob),
        actions := (actions st)(t \<mapsto> action),
        log_probs := (log_probs st)(t \<mapsto> log_prob),
        state_values := (state_values st)(t \<mapsto> val),
        rewards := (rewards st)(t \<mapsto> reward),
        dones := (dones st)(t \<mapsto> don),
        features := (features st)(t \<mapsto> feature)\<rparr>"

definition copy_feature :: "storage \<Rightarrow> nat \<Rightarrow> tensor \<Rightarrow> storage" where
  \<comment> \<open>\<^verbatim>\<open>features[t].copy_(x)\<close>\<close>
  "copy_feature st t x = st\<lparr>features := (features st)(t \<mapsto> x)\<rparr>"

definition after_update :: "storage \<Rightarrow> storage" where
  "after_update st =
     st\<lparr>states := (\<lambda>t. if t = 0 then states st (st_rollout_size st) else None),
        actions := Map.empty, log_probs := Map.empty, state_values := Map.empty,
        rewards := Map.empty, dones := Map.empty, features := Map.empty\<rparr>"

definition buffer_states :: "storage \<Rightarrow> obs list" where
  \<comment> \<open>\<^verbatim>\<open>states.view(-1, n_stack, *frame_shape)\<close>: the state slots 0 to T, in order\<close>
  "buffer_states st = map (get_state st) [0..<Suc (st_rollout_size st)]"

definition buffer_actions :: "storage \<Rightarrow> nat list" where
  \<comment> \<open>\<^verbatim>\<open>actions.view(-1)\<close>: the action slots 0 to T - 1, flattened\<close>
  "buffer_actions st = concat (map (slot_l (actions st)) [0..<st_rollout_size st])"

definition buffer_next_features :: "storage \<Rightarrow> tensor" where
  \<comment> \<open>\<^verbatim>\<open>features[1:, :, :].view(-1, feature_size)\<close>: the feature slots 1 to T\<close>
  "buffer_next_features st = t_cat (map (slot_t (features st)) [1..<Suc (st_rollout_size st)])"

subsection \<open>Returns, advantages and the A2C loss terms\<close>

record step_row =
  row_reward :: "real list"
  row_done :: "bool list"
  row_value :: tensor
  row_log_prob :: tensor

definition bootstrap :: "real \<Rightarrow> step_row \<Rightarrow> tensor \<Rightarrow> tensor" where
  \<comment> \<open>\<open>reward_t + \<gamma> \<cdot> R_{t+1} \<cdot> (1 - done_t)\<close>, one entry per environment\<close>
  "bootstrap gamma r nxt =
     \<lparr>data = map2 (\<lambda>(rew, d) x. rew + gamma * x * (1 - of_bool d))
               (zip (row_reward r) (row_done r)) (data nxt),
      leaves = leaves nxt\<rparr>"

fun ret :: "real \<Rightarrow> step_row list \<Rightarrow> tensor \<Rightarrow> tensor" where
  \<comment> \<open>the return at the first step of a trajectory, seeded with the final value\<close>
  "ret gamma [] final_value = final_value"
| "ret gamma (r # rs) final_value = bootstrap gamma r (ret gamma rs final_value)"

definition return_at :: "real \<Rightarrow> step_row list \<Rightarrow> tensor \<Rightarrow> nat \<Rightarrow> tensor" where
  \<comment> \<open>\<open>R_t\<close>, for \<open>t\<close> from 0 to the length of the trajectory\<close>
  "return_at gamma rows final_value t = ret gamma (drop t rows) final_value"

definition advantage_at :: "real \<Rightarrow> step_row list \<Rightarrow> tensor \<Rightarrow> nat \<Rightarrow> tensor" where
  "advantage_at gamma rows final_value t =
     t_sub (return_at gamma rows final_value t) (row_value (rows ! t))"

definition advantages :: "real \<Rightarrow> step_row list \<Rightarrow> tensor \<Rightarrow> tensor" where
  "advantages gamma rows final_value =
     t_cat (map (advantage_at gamma rows final_value) [0..<length rows])"

definition compute_a2c_terms ::
  "real \<Rightarrow> step_row list \<Rightarrow> tensor \<Rightarrow> tensor \<times> tensor \<times> real list list" where
  "compute_a2c_terms gamma rows final_value =
     (let adv = advantages gamma rows final_value;
          policy_loss = t_neg (t_mean (t_mul (t_cat (map row_log_prob rows)) (detach adv)));
          value_loss = t_mean (t_pow adv 2)
      in (policy_loss, value_loss, map row_reward rows))"

definition storage_rows :: "storage \<Rightarrow> step_row list" where
  "storage_rows st =
     map (\<lambda>t. \<lparr>row_reward = slot_l (rewards st) t, row_done = slot_l (dones st) t,
               row_value = slot_t (state_values st) t,
               row_log_prob = slot_t (log_probs st) t\<rparr>)
         [0..<st_rollout_size st]"

definition storage_a2c_loss :: "storage \<Rightarrow> tensor \<Rightarrow> tensor \<times> tensor \<times> real list list" where
  "storage_a2c_loss st final_value = compute_a2c_terms (discount st) (storage_rows st) final_value"

section \<open>The Runner and its collaborators\<close>

text \<open>
  The environment, the network (policy/value agent, curiosity module, optimizer), the
  logger and the clock are outside \<^verbatim>\<open>train.py\<close>. They are one world state \<open>'w\<close>,
  threaded through every call, and a record of the operations the Runner invokes on it.
  A call with a used result has its own operation; a call made for its effect alone is
  an event the world reacts to. Every call is also appended to the trace, in program
  order. Collaborator calls are taken to return; the spec lets any exception of theirs
  abort the run.
\<close>

datatype event =
    MakeLogger string string string
  | NetCuda
  | EnvReset
  | CopyState0
  | GetState nat
  | GetAction bool
  | EnvStep "nat list" "bool list"
  | LogEpisodeRewards infos
  | Insert nat "bool list"
  | ResetRecurrent "bool list"
  | CopyFeature nat
  | ZeroGrad
  | Icm nat
  | StorageA2cLoss
  | CoeffValue real
  | Backward tensor bool
  | ClipGradNorm real
  | LoggerLog "real list list" "real list"
  | OptimizerStep
  | AfterUpdate
  | CoeffStep
  | Print "real list" nat
  | PrintRewardStats
  | EnvClose
  | LoggerSave
  | ParamsSave string string

record 'w collab =
  clock :: "'w \<Rightarrow> string"
  cuda_available :: "'w \<Rightarrow> bool"
  observation_shape :: "'w \<Rightarrow> nat list"
  net_num_actions :: "'w \<Rightarrow> nat"
  logger_data_dir :: "'w \<Rightarrow> string"
  env_reset :: "'w \<Rightarrow> obs \<times> 'w"
  env_step :: "nat list \<Rightarrow> 'w \<Rightarrow> (obs \<times> real list \<times> bool list \<times> infos) \<times> 'w"
  get_action :: "obs \<Rightarrow> 'w \<Rightarrow> (nat list \<times> tensor \<times> tensor \<times> tensor \<times> tensor) \<times> 'w"
  icm :: "nat \<Rightarrow> obs list \<Rightarrow> nat list \<Rightarrow> 'w \<Rightarrow> (tensor \<times> tensor \<times> tensor) \<times> 'w"
  react :: "event \<Rightarrow> 'w \<Rightarrow> 'w"

record 'w runner =
  timestamp :: string
  seed :: int
  is_cuda :: bool
  params :: params
  storage :: storage
  world :: 'w
  trace :: "event list"

datatype error = UnboundLocalError

definition logged :: "event \<Rightarrow> 'w runner \<Rightarrow> 'w runner" where
  "logged ev s = s\<lparr>trace := trace s @ [ev]\<rparr>"

definition tell :: "'w collab \<Rightarrow> event \<Rightarrow> 'w runner \<Rightarrow> 'w runner" where
  "tell io ev s = s\<lparr>world := react io ev (world s), trace := trace s @ [ev]\<rparr>"

definition init ::
  "'w collab \<Rightarrow> 'w \<Rightarrow> real \<Rightarrow> params \<Rightarrow> bool \<Rightarrow> int \<Rightarrow> string \<Rightarrow> 'w runner" where
  \<comment> \<open>\<^verbatim>\<open>Runner.__init__(net, env, params, is_cuda, seed, log_dir)\<close>; \<open>gamma\<close> is the
      discount factor the storage is built with\<close>
  "init io w gamma p cuda_arg seed_arg log_dir =
     (let ts = clock io w;
          cuda = (cuda_available io w \<and> cuda_arg);
          ev = MakeLogger (env_name p) ts log_dir;
          w = react io ev w;
          s = \<lparr>timestamp = ts, seed = seed_arg, is_cuda = cuda, params = p,
               storage = RolloutStorage gamma (rollout_size p) (num_envs p)
                           (butlast (observation_shape io w)) (n_stack p) cuda,
               world = w, trace = [ev]\<rparr>
      in if cuda then tell io NetCuda s else s)"

definition rollout_step ::
  "'w collab \<Rightarrow> nat \<Rightarrow> (nat \<times> tensor) option \<Rightarrow> 'w runner
     \<Rightarrow> (nat \<times> tensor) option \<times> 'w runner" where
  \<comment> \<open>the body of the loop of \<^verbatim>\<open>episode_rollout\<close>; the option holds the loop variable
      and the entropy sum, and is \<open>None\<close> while \<^verbatim>\<open>step\<close> is unbound and the sum is the
      Python number 0\<close>
  "rollout_step io step vars s =
     (let s = logged (GetState step) s;
          ((a_t, log_p_a_t, entropy, val, a2c_features), w) =
             get_action io (get_state (storage s) step) (world s);
          s = logged (GetAction True) (s\<lparr>world := w\<rparr>);
          episode_entropy =
             (case vars of None \<Rightarrow> t_add_const 0 entropy
              | Some (_, e) \<Rightarrow> t_add e entropy);
          ((ob, rews, dns, info), w) = env_step io a_t (world s);
          s = logged (EnvStep a_t dns) (s\<lparr>world := w\<rparr>);
          s = tell io (LogEpisodeRewards info) s;
          s = logged (Insert step dns)
                (s\<lparr>storage :=
                   storage_insert (storage s) step rews ob a_t log_p_a_t val dns a2c_features\<rparr>);
          s = tell io (ResetRecurrent dns) s
      in (Some (step, episode_entropy), s))"

fun rollout_loop ::
  "'w collab \<Rightarrow> nat \<Rightarrow> 'w runner \<Rightarrow> (nat \<times> tensor) option \<times> 'w runner" where
  \<comment> \<open>the first \<open>n\<close> iterations of \<^verbatim>\<open>for step in range(rollout_size)\<close>\<close>
  "rollout_loop io 0 s = (None, s)"
| "rollout_loop io (Suc n) s =
     (case rollout_loop io n s of (vars, s') \<Rightarrow> rollout_step io n vars s')"

definition episode_rollout ::
  "'w collab \<Rightarrow> 'w runner \<Rightarrow> error + ((tensor \<times> tensor) \<times> 'w runner)" where
  "episode_rollout io s =
     (case rollout_loop io (rollout_size (params s)) s of
        (None, s) \<Rightarrow> Inl UnboundLocalError
      | (Some (step, episode_entropy), s) \<Rightarrow>
          (let s = logged (GetState (step + 1)) s;
               ((_, _, _, val, feats), w) =
                  get_action io (get_state (storage s) (step + 1)) (world s);
               final_value = detach val;
               final_features = detach feats;
               s = logged (GetAction False) (s\<lparr>world := w\<rparr>);
               s = logged (CopyFeature (step + 1))
                     (s\<lparr>storage := copy_feature (storage s) (step + 1) final_features\<rparr>)
           in Inr ((final_value, episode_entropy), s)))"

definition assemble_loss ::
  "'w collab \<Rightarrow> tensor \<Rightarrow> tensor \<Rightarrow> 'w runner
     \<Rightarrow> (tensor \<times> real list list \<times> tensor) \<times> 'w runner" where
  \<comment> \<open>lines 52 to 72 of \<^verbatim>\<open>train\<close>: gradients zeroed, curiosity prediction, loss assembly\<close>
  "assemble_loss io final_value entropy s =
     (let s = tell io ZeroGrad s;
          ((feature, feature_pred, a_t_pred), w) =
             icm io (num_envs (params s)) (buffer_states (storage s))
               (buffer_actions (storage s)) (world s);
          s = logged (Icm (num_envs (params s))) (s\<lparr>world := w\<rparr>);
          stored_next = buffer_next_features (storage s);
          (policy_loss, value_loss, rews) = storage_a2c_loss (storage s) final_value;
          s = logged StorageA2cLoss s;
          s = logged (CoeffValue (sched_value (curiosity_coeff (params s)))) s;
          loss = total_loss (params s) (net_num_actions io (world s)) stored_next entropy
                   policy_loss value_loss feature feature_pred a_t_pred
                   (buffer_actions (storage s))
      in ((loss, rews, feature), s))"

definition optimization_step ::
  "'w collab \<Rightarrow> tensor \<Rightarrow> real list list \<Rightarrow> tensor \<Rightarrow> 'w runner \<Rightarrow> 'w runner" where
  \<comment> \<open>lines 74 to 82 of \<^verbatim>\<open>train\<close>\<close>
  "optimization_step io loss rews feature s =
     (let s = tell io (Backward loss False) s;
          s = tell io (ClipGradNorm (max_grad_norm (params s))) s;
          s = tell io (LoggerLog rews (data (detach feature))) s
      in tell io OptimizerStep s)"

definition bookkeeping :: "'w collab \<Rightarrow> nat \<Rightarrow> tensor \<Rightarrow> 'w runner \<Rightarrow> 'w runner" where
  \<comment> \<open>lines 86 to 98 of \<^verbatim>\<open>train\<close>\<close>
  "bookkeeping io num_update loss s =
     (let s = logged AfterUpdate (s\<lparr>storage := after_update (storage s)\<rparr>);
          s = logged CoeffStep
                (s\<lparr>params := (params s)\<lparr>curiosity_coeff :=
                                 sched_step (curiosity_coeff (params s))\<rparr>\<rparr>)
      in if num_update mod 100 = 0
         then tell io PrintRewardStats (tell io (Print (data loss) num_update) s)
         else s)"

definition update :: "'w collab \<Rightarrow> nat \<Rightarrow> 'w runner \<Rightarrow> error + 'w runner" where
  \<comment> \<open>one iteration of the loop of \<^verbatim>\<open>train\<close>\<close>
  "update io num_update s =
     (case episode_rollout io s of
        Inl e \<Rightarrow> Inl e
      | Inr ((final_value, entropy), s) \<Rightarrow>
          (let ((loss, rews, feature), s) = assemble_loss io final_value entropy s;
               s = optimization_step io loss rews feature s
           in Inr (bookkeeping io num_update loss s)))"

fun run_updates :: "'w collab \<Rightarrow> nat \<Rightarrow> 'w runner \<Rightarrow> error + 'w runner" where
  \<comment> \<open>the first \<open>n\<close> iterations of \<^verbatim>\<open>for num_update in range(num_updates)\<close>\<close>
  "run_updates io 0 s = Inr s"
| "run_updates io (Suc n) s =
     (case run_updates io n s of Inl e \<Rightarrow> Inl e | Inr s' \<Rightarrow> update io n s')"

definition train :: "'w collab \<Rightarrow> 'w runner \<Rightarrow> error + 'w runner" where
  "train io s =
     (let (ob, w) = env_reset io (world s);
          s = logged EnvReset (s\<lparr>world := w\<rparr>);
          s = logged CopyState0 (s\<lparr>storage := reset_initial (storage s) ob\<rparr>)
      in case run_updates io (num_updates (params s)) s of
           Inl e \<Rightarrow> Inl e
         | Inr s \<Rightarrow>
             (let s = tell io EnvClose s;
                  s = tell io LoggerSave s;
                  s = tell io (ParamsSave (logger_data_dir io (world s)) (timestamp s)) s
              in Inr s))"

section \<open>The replies of the collaborators during a rollout\<close>

text \<open>
  Names for what the agent and the environment answer at step \<open>t\<close> of a rollout
  started in state \<open>s\<close>: the agent is queried on state slot \<open>t\<close> of the buffer in the
  world the first \<open>t\<close> steps have left, and the environment is stepped with the actions
  of that reply in the world the query has left. For \<open>t\<close> equal to the rollout size the
  agent's reply is that of the bootstrap query.
\<close>

definition step_reply ::
  "'w collab \<Rightarrow> 'w runner \<Rightarrow> nat \<Rightarrow> (nat list \<times> tensor \<times> tensor \<times> tensor \<times> tensor) \<times> 'w" where
  "step_reply io s t =
     get_action io (get_state (storage (snd (rollout_loop io t s))) t)
       (world (snd (rollout_loop io t s)))"

definition reply_actions :: "(nat list \<times> tensor \<times> tensor \<times> tensor \<times> tensor) \<times> 'w \<Rightarrow> nat list" where
  "reply_actions r = fst (fst r)"

definition reply_log_prob :: "(nat list \<times> tensor \<times> tensor \<times> tensor \<times> tensor) \<times> 'w \<Rightarrow> tensor" where
  "reply_log_prob r = fst (snd (fst r))"

definition reply_entropy :: "(nat list \<times> tensor \<times> tensor \<times> tensor \<times> tensor) \<times> 'w \<Rightarrow> tensor" where
  "reply_entropy r = fst (snd (snd (fst r)))"

definition reply_value :: "(nat list \<times> tensor \<times> tensor \<times> tensor \<times> tensor) \<times> 'w \<Rightarrow> tensor" where
  "reply_value r = fst (snd (snd (snd (fst r))))"

definition reply_features :: "(nat list \<times> tensor \<times> tensor \<times> tensor \<times> tensor) \<times> 'w \<Rightarrow> tensor" where
  "reply_features r = snd (snd (snd (snd (fst r))))"

definition step_answer ::
  "'w collab \<Rightarrow> 'w runner \<Rightarrow> nat \<Rightarrow> (obs \<times> real list \<times> bool list \<times> infos) \<times> 'w" where
  "step_answer io s t =
     env_step io (reply_actions (step_reply io s t)) (snd (step_reply io s t))"

definition answer_obs :: "(obs \<times> real list \<times> bool list \<times> infos) \<times> 'w \<Rightarrow> obs" where
  "answer_obs a = fst (fst a)"

definition answer_rewards :: "(obs \<times> real list \<times> bool list \<times> infos) \<times> 'w \<Rightarrow> real list" where
  "answer_rewards a = fst (snd (fst a))"

definition answer_dones :: "(obs \<times> real list \<times> bool list \<times> infos) \<times> 'w \<Rightarrow> bool list" where
  "answer_dones a = fst (snd (snd (fst a)))"

definition answer_infos :: "(obs \<times> real list \<times> bool list \<times> infos) \<times> 'w \<Rightarrow> infos" where
  "answer_infos a = snd (snd (snd (fst a)))"

definition rollout_entropy :: "'w collab \<Rightarrow> 'w runner \<Rightarrow> nat \<Rightarrow> tensor" where
  \<comment> \<open>the Python number 0 plus the entropies of the first \<open>n\<close> replies, added in order\<close>
  "rollout_entropy io s n =
     foldl t_add (t_add_const 0 (reply_entropy (step_reply io s 0)))
       (map (\<lambda>t. reply_entropy (step_reply io s t)) [1..<n])"

section \<open>Reading the trace\<close>

definition events_since :: "'w runner \<Rightarrow> 'w runner \<Rightarrow> event list" where
  \<comment> \<open>the calls made between an earlier state and a later one\<close>
  "events_since s s' = drop (length (trace s)) (trace s')"

definition insert_indices :: "event list \<Rightarrow> nat list" where
  "insert_indices evs = concat (map (\<lambda>e. case e of Insert t d \<Rightarrow> [t] | _ \<Rightarrow> []) evs)"

definition is_rollout_event :: "event \<Rightarrow> bool" where
  "is_rollout_event e =
     (case e of GetState t \<Rightarrow> True | GetAction g \<Rightarrow> True | EnvStep a d \<Rightarrow> True
      | LogEpisodeRewards i \<Rightarrow> True | Insert t d \<Rightarrow> True | ResetRecurrent d \<Rightarrow> True
      | CopyFeature t \<Rightarrow> True | _ \<Rightarrow> False)"

definition is_optim_event :: "event \<Rightarrow> bool" where
  "is_optim_event e =
     (case e of ZeroGrad \<Rightarrow> True | Backward l r \<Rightarrow> True | ClipGradNorm g \<Rightarrow> True
      | OptimizerStep \<Rightarrow> True | _ \<Rightarrow> False)"

definition is_coeff_event :: "event \<Rightarrow> bool" where
  "is_coeff_event e =
     (case e of CoeffValue v \<Rightarrow> True | Backward l r \<Rightarrow> True | OptimizerStep \<Rightarrow> True
      | CoeffStep \<Rightarrow> True | _ \<Rightarrow> False)"

definition is_lifecycle_event :: "event \<Rightarrow> bool" where
  "is_lifecycle_event e =
     (case e of ZeroGrad \<Rightarrow> True | OptimizerStep \<Rightarrow> True | EnvClose \<Rightarrow> True
      | LoggerSave \<Rightarrow> True | ParamsSave d t \<Rightarrow> True | _ \<Rightarrow> False)"

definition step_block :: "nat \<Rightarrow> nat list \<Rightarrow> bool list \<Rightarrow> infos \<Rightarrow> event list" where
  \<comment> \<open>the calls of rollout step \<open>t\<close>, with the actions sent, the done flags and the
      infos the environment returned\<close>
  "step_block t a d i =
     [GetState t, GetAction True, EnvStep a d, LogEpisodeRewards i, Insert t d,
      ResetRecurrent d]"

section \<open>A small deterministic run\<close>

text \<open>
  One environment with one state and two actions, rollouts of four steps, ten updates.
  The world is a counter of the calls it has seen.
\<close>

definition toy_io :: "nat collab" where
  "toy_io =
     \<lparr>clock = (\<lambda>w. ''2020-01-01 00_00_00''),
      cuda_available = (\<lambda>w. False),
      observation_shape = (\<lambda>w. [1, 1, 4]),
      net_num_actions = (\<lambda>w. 2),
      logger_data_dir = (\<lambda>w. ''logs''),
      env_reset = (\<lambda>w. ([0], Suc w)),
      env_step = (\<lambda>a w. (([0], [1], [w mod 3 = 0], [[]]), Suc w)),
      get_action = (\<lambda>ob w.
         (([w mod 2],
           \<lparr>data = [- 1], leaves = {''actor''}\<rparr>,
           \<lparr>data = [1 / 2], leaves = {''actor''}\<rparr>,
           \<lparr>data = [0], leaves = {''critic''}\<rparr>,
           \<lparr>data = [1], leaves = {''encoder''}\<rparr>), Suc w)),
      icm = (\<lambda>n sts acts w.
         ((\<lparr>data = [1, 1, 1, 1], leaves = {''icm_encoder''}\<rparr>,
           \<lparr>data = [0, 1, 0, 1], leaves = {''icm_forward''}\<rparr>,
           \<lparr>data = [0, 0, 0, 0, 0, 0, 0, 0], leaves = {''icm_inverse''}\<rparr>), Suc w)),
      react = (\<lambda>ev w. Suc w)\<rparr>"

definition toy_params :: params where
  "toy_params =
     \<lparr>env_name = ''toy'', num_updates = 10, rollout_size = 4, num_envs = 1, n_stack = 1,
      value_coeff = 1 / 2, entropy_coeff = 1 / 100, max_grad_norm = 1 / 2,
      curiosity_coeff = \<lparr>sched_value = 1, sched_rule = Multiplicative (9 / 10),
                         sched_steps = 0\<rparr>\<rparr>"

definition toy_runner :: "nat runner" where
  "toy_runner = init toy_io 0 (99 / 100) toy_params True 42 ''/data/patrik''"

definition no_rollout_runner :: "nat runner" where
  "no_rollout_runner =
     init toy_io 0 (99 / 100) (toy_params\<lparr>rollout_size := 0\<rparr>) True 42 ''/data/patrik''"

definition done_example_rows :: "step_row list" where
  \<comment> \<open>rewards \<open>[1, 1]\<close>, done \<open>[1, 0]\<close>, one environment\<close>
  "done_example_rows =
     [\<lparr>row_reward = [1], row_done = [True],
       row_value = \<lparr>data = [0], leaves = {''critic''}\<rparr>,
       row_log_prob = \<lparr>data = [- 1], leaves = {''actor''}\<rparr>\<rparr>,
      \<lparr>row_reward = [1], row_done = [False],
       row_value = \<lparr>data = [0], leaves = {''critic''}\<rparr>,
       row_log_prob = \<lparr>data = [- 1], leaves = {''actor''}\<rparr>\<rparr>]"

section \<open>Values and graphs of the loss terms\<close>

lemma squares_swap:
  "map (\<lambda>x. x\<^sup>2) (map2 (-) xs ys) = map (\<lambda>x. x\<^sup>2) (map2 (-) ys xs)"
  for xs ys :: "real list"
  by (induction xs ys rule: list_induct2') (simp_all add: power2_commute)

lemma total_loss_data:
  assumes "data policy_loss = [pl]" and "data value_loss = [vl]" and "data entropy = [en]"
  shows "data (total_loss p n_actions stored_next entropy policy_loss value_loss feature
                 feature_pred a_t_pred acts) =
           [pl + value_coeff p * vl - entropy_coeff p * en
            + mean_val (map (\<lambda>x. x\<^sup>2) (map2 (-) (data feature_pred) (data feature)))
            + cross_entropy (view_rows n_actions (data a_t_pred)) acts
            - sched_value (curiosity_coeff p)
              * mean_val (map (\<lambda>x. x\<^sup>2) (map2 (-) (data stored_next) (data feature_pred)))]"
  using assms
  by (simp add: total_loss_def a2c_loss_def icm_loss_def loss_fwd_def loss_inv_def
      curiosity_loss_def mse_loss_def t_sub_def t_add_def t_scale_def t_mean_def t_pow_def
      detach_def)

lemma total_loss_parts:
  "total_loss p n_actions stored_next entropy policy_loss value_loss feature feature_pred
     a_t_pred acts
   = t_sub (t_add (a2c_loss p entropy policy_loss value_loss)
                  (t_add (loss_fwd feature_pred feature) (loss_inv n_actions a_t_pred acts)))
           (t_scale (sched_value (curiosity_coeff p)) (curiosity_loss stored_next feature_pred))"
  by (simp add: total_loss_def icm_loss_def)

lemma total_loss_leaves:
  "leaves (total_loss p n_actions stored_next entropy policy_loss value_loss feature
             feature_pred a_t_pred acts)
   = leaves policy_loss \<union> leaves value_loss \<union> leaves entropy \<union> leaves feature_pred
     \<union> leaves feature \<union> leaves a_t_pred \<union> leaves stored_next"
  by (auto simp add: total_loss_def a2c_loss_def icm_loss_def loss_fwd_def loss_inv_def
      curiosity_loss_def mse_loss_def t_sub_def t_add_def t_scale_def t_mean_def t_pow_def
      detach_def)

lemma curiosity_loss_parts:
  "data (curiosity_loss stored_next feature_pred)
     = [mean_val (map (\<lambda>x. x\<^sup>2) (map2 (-) (data stored_next) (data feature_pred)))]"
  "leaves (curiosity_loss stored_next feature_pred) = leaves stored_next"
  "data (loss_fwd feature_pred feature)
     = [mean_val (map (\<lambda>x. x\<^sup>2) (map2 (-) (data feature_pred) (data feature)))]"
  "leaves (loss_fwd feature_pred feature) = leaves feature_pred \<union> leaves feature"
  by (simp_all add: curiosity_loss_def loss_fwd_def mse_loss_def t_mean_def t_pow_def t_sub_def
      detach_def)

section \<open>Returns and advantages\<close>

lemma return_at_end: "return_at gamma rows fv (length rows) = fv"
  by (simp add: return_at_def)

lemma return_at_step:
  "t < length rows \<Longrightarrow>
   return_at gamma rows fv t = bootstrap gamma (rows ! t) (return_at gamma rows fv (Suc t))"
  by (simp add: return_at_def flip: Cons_nth_drop_Suc)

lemma bootstrap_nth:
  "n < length (row_reward r) \<Longrightarrow> n < length (row_done r) \<Longrightarrow> n < length (data nxt) \<Longrightarrow>
   data (bootstrap gamma r nxt) ! n
     = row_reward r ! n + gamma * data nxt ! n * (1 - of_bool (row_done r ! n))"
  by (simp add: bootstrap_def)

text \<open>
  C3. For a trajectory of length \<open>T\<close>, the return seeded with the bootstrap value
  satisfies \<open>R_T = final_value\<close> and, for every step \<open>t < T\<close> and environment \<open>n\<close>,
  \<open>R_t = reward_t + \<gamma> \<cdot> R_{t+1} \<cdot> (1 - done_t)\<close>; a done flag at \<open>t\<close> leaves
  \<open>R_t = reward_t\<close>. The advantage is \<open>R_t - value_t\<close>, the policy loss is minus the
  mean of \<open>log_prob \<cdot> detach(advantage)\<close> (so its graph is that of the log-probabilities
  alone) and the value loss is the mean of the squared advantages. With rewards
  \<open>[1, 1]\<close>, done \<open>[1, 0]\<close>, final value 5 and \<open>\<gamma> = 0.9\<close> the returns are
  \<open>R_0 = 1\<close>, \<open>R_1 = 5.5\<close>, \<open>R_2 = 5\<close>.
\<close>

theorem a2c_terms_returns:
  assumes "t < length rows"
    and "n < length (row_reward (rows ! t))"
    and "n < length (row_done (rows ! t))"
    and "n < length (data (return_at gamma rows final_value (Suc t)))"
  shows "return_at gamma rows final_value (length rows) = final_value
    \<and> data (return_at gamma rows final_value t) ! n
        = row_reward (rows ! t) ! n
          + gamma * data (return_at gamma rows final_value (Suc t)) ! n
            * (1 - of_bool (row_done (rows ! t) ! n))
    \<and> (row_done (rows ! t) ! n \<longrightarrow>
         data (return_at gamma rows final_value t) ! n = row_reward (rows ! t) ! n)
    \<and> data (advantage_at gamma rows final_value t)
        = map2 (-) (data (return_at gamma rows final_value t)) (data (row_value (rows ! t)))
    \<and> data (advantages gamma rows final_value)
        = concat (map (\<lambda>t. data (advantage_at gamma rows final_value t)) [0..<length rows])
    \<and> data (fst (compute_a2c_terms gamma rows final_value))
        = [- mean_val (map2 (*) (concat (map (\<lambda>r. data (row_log_prob r)) rows))
                                (data (advantages gamma rows final_value)))]
    \<and> leaves (fst (compute_a2c_terms gamma rows final_value))
        = (\<Union>r \<in> set rows. leaves (row_log_prob r))
    \<and> data (fst (snd (compute_a2c_terms gamma rows final_value)))
        = [mean_val (map (\<lambda>x. x\<^sup>2) (data (advantages gamma rows final_value)))]
    \<and> map (\<lambda>t. data (return_at (9 / 10) done_example_rows \<lparr>data = [5], leaves = {}\<rparr> t))
          [0, 1, 2]
        = [[1], [11 / 2], [5]]"
proof -
  have nth: "data (return_at gamma rows final_value t) ! n
        = row_reward (rows ! t) ! n
          + gamma * data (return_at gamma rows final_value (Suc t)) ! n
            * (1 - of_bool (row_done (rows ! t) ! n))"
    using assms by (simp add: return_at_step bootstrap_nth)
  have adv: "data (advantages gamma rows final_value)
        = concat (map (\<lambda>t. data (advantage_at gamma rows final_value t)) [0..<length rows])"
    by (simp add: advantages_def t_cat_def comp_def)
  have pol: "data (fst (compute_a2c_terms gamma rows final_value))
        = [- mean_val (map2 (*) (concat (map (\<lambda>r. data (row_log_prob r)) rows))
                                (data (advantages gamma rows final_value)))]"
    by (simp add: compute_a2c_terms_def Let_def t_neg_def t_mean_def t_mul_def t_cat_def
        detach_def comp_def)
  have lv: "leaves (fst (compute_a2c_terms gamma rows final_value))
        = (\<Union>r \<in> set rows. leaves (row_log_prob r))"
    by (simp add: compute_a2c_terms_def Let_def t_neg_def t_mean_def t_mul_def t_cat_def
        detach_def)
  have vl: "data (fst (snd (compute_a2c_terms gamma rows final_value)))
        = [mean_val (map (\<lambda>x. x\<^sup>2) (data (advantages gamma rows final_value)))]"
    by (simp add: compute_a2c_terms_def Let_def t_mean_def t_pow_def)
  have ex: "map (\<lambda>t. data (return_at (9 / 10) done_example_rows \<lparr>data = [5], leaves = {}\<rparr> t))
          [0, 1, 2]
        = [[1], [11 / 2], [5]]"
    by (simp add: return_at_def done_example_rows_def bootstrap_def)
  show ?thesis
    using nth adv pol lv vl ex
    by (simp add: return_at_end advantage_at_def t_sub_def)
qed

theorem a2c_terms_returns_witness:
  "0 < length done_example_rows
   \<and> 0 < length (row_reward (done_example_rows ! 0))
   \<and> 0 < length (row_done (done_example_rows ! 0))
   \<and> 0 < length (data (return_at (9 / 10) done_example_rows \<lparr>data = [5], leaves = {}\<rparr> (Suc 0)))
   \<and> row_done (done_example_rows ! 0) ! 0
   \<and> data (return_at (9 / 10) done_example_rows \<lparr>data = [5], leaves = {}\<rparr> 0) ! 0 = 1
   \<and> data (fst (compute_a2c_terms (9 / 10) done_example_rows \<lparr>data = [5], leaves = {}\<rparr>))
       = [13 / 4]
   \<and> data (fst (snd (compute_a2c_terms (9 / 10) done_example_rows \<lparr>data = [5], leaves = {}\<rparr>)))
       = [125 / 8]"
  using a2c_terms_returns [of 0 done_example_rows 0 "9 / 10" "\<lparr>data = [5], leaves = {}\<rparr>"]
  by (simp add: return_at_def done_example_rows_def bootstrap_def advantages_def
      advantage_at_def t_cat_def t_sub_def mean_val_def power2_eq_square)

section \<open>The rollout phase\<close>

lemma logged_simps [simp]:
  "trace (logged ev s) = trace s @ [ev]"
  "params (logged ev s) = params s"
  "storage (logged ev s) = storage s"
  "world (logged ev s) = world s"
  "timestamp (logged ev s) = timestamp s"
  by (simp_all add: logged_def)

lemma tell_simps [simp]:
  "trace (tell io ev s) = trace s @ [ev]"
  "params (tell io ev s) = params s"
  "storage (tell io ev s) = storage s"
  "world (tell io ev s) = react io ev (world s)"
  "timestamp (tell io ev s) = timestamp s"
  by (simp_all add: tell_def)

lemma rollout_step_trace:
  "\<exists>a d i. trace (snd (rollout_step io t v s)) = trace s @ step_block t a d i"
  by (simp add: rollout_step_def Let_def step_block_def split: prod.splits)

lemma rollout_step_vars: "\<exists>e. fst (rollout_step io t v s) = Some (t, e)"
  by (simp add: rollout_step_def Let_def split: prod.splits)

lemma rollout_step_params [simp]: "params (snd (rollout_step io t v s)) = params s"
  and rollout_step_timestamp [simp]: "timestamp (snd (rollout_step io t v s)) = timestamp s"
  by (simp_all add: rollout_step_def Let_def split: prod.splits)

lemma rollout_step_storage:
  "dom (states (storage (snd (rollout_step io t v s)))) = insert (Suc t) (dom (states (storage s)))"
  "dom (actions (storage (snd (rollout_step io t v s)))) = insert t (dom (actions (storage s)))"
  "dom (rewards (storage (snd (rollout_step io t v s)))) = insert t (dom (rewards (storage s)))"
  "dom (features (storage (snd (rollout_step io t v s)))) = insert t (dom (features (storage s)))"
  by (simp_all add: rollout_step_def Let_def storage_insert_def split: prod.splits)

lemma rollout_loop_Suc:
  "rollout_loop io (Suc n) s
     = rollout_step io n (fst (rollout_loop io n s)) (snd (rollout_loop io n s))"
  by (simp add: case_prod_beta)

lemma rollout_loop_params [simp]: "params (snd (rollout_loop io n s)) = params s"
  by (induction n) (simp_all add: rollout_loop_Suc del: rollout_loop.simps(2))

lemma rollout_loop_timestamp [simp]: "timestamp (snd (rollout_loop io n s)) = timestamp s"
  by (induction n) (simp_all add: rollout_loop_Suc del: rollout_loop.simps(2))

lemma rollout_loop_vars:
  "fst (rollout_loop io 0 s) = None" "\<exists>e. fst (rollout_loop io (Suc n) s) = Some (n, e)"
  by (simp_all add: rollout_loop_Suc rollout_step_vars del: rollout_loop.simps(2))

lemma rollout_loop_storage:
  "dom (states (storage (snd (rollout_loop io n s)))) = dom (states (storage s)) \<union> {1..n}"
  "dom (actions (storage (snd (rollout_loop io n s)))) = dom (actions (storage s)) \<union> {0..<n}"
  "dom (rewards (storage (snd (rollout_loop io n s)))) = dom (rewards (storage s)) \<union> {0..<n}"
  "dom (features (storage (snd (rollout_loop io n s)))) = dom (features (storage s)) \<union> {0..<n}"
  by (induction n)
     (auto simp add: rollout_loop_Suc rollout_step_storage simp del: rollout_loop.simps(2))

lemma take_block:
  assumes "length evs = 6 * n" and "t \<le> n" and "length b = 6"
  shows "take 6 (drop (6 * t) (evs @ b)) = (if t = n then b else take 6 (drop (6 * t) evs))"
  using assms by auto

lemma rollout_loop_trace:
  "\<exists>evs. trace (snd (rollout_loop io n s)) = trace s @ evs
     \<and> length evs = 6 * n
     \<and> (\<forall>t<n. \<exists>a d i. take 6 (drop (6 * t) evs) = step_block t a d i)
     \<and> insert_indices evs = [0..<n]
     \<and> (\<forall>e \<in> set evs. is_rollout_event e)
     \<and> GetAction False \<notin> set evs"
proof (induction n)
  case 0
  show ?case by (simp add: insert_indices_def)
next
  case (Suc n)
  then obtain evs where evs: "trace (snd (rollout_loop io n s)) = trace s @ evs"
     "length evs = 6 * n"
     "\<forall>t<n. \<exists>a d i. take 6 (drop (6 * t) evs) = step_block t a d i"
     "insert_indices evs = [0..<n]"
     "\<forall>e \<in> set evs. is_rollout_event e"
     "GetAction False \<notin> set evs"
    by blast
  obtain a d i where b: "trace (snd (rollout_loop io (Suc n) s))
      = trace (snd (rollout_loop io n s)) @ step_block n a d i"
    using rollout_step_trace [of io n "fst (rollout_loop io n s)" "snd (rollout_loop io n s)"]
    by (auto simp add: rollout_loop_Suc simp del: rollout_loop.simps(2))
  let ?evs = "evs @ step_block n a d i"
  have len: "length (step_block n a d i) = 6" by (simp add: step_block_def)
  have 1: "trace (snd (rollout_loop io (Suc n) s)) = trace s @ ?evs"
    using b evs(1) by simp
  have 2: "length ?evs = 6 * Suc n" using evs(2) len by simp
  have 3: "\<exists>a' d' i'. take 6 (drop (6 * t) ?evs) = step_block t a' d' i'" if "t < Suc n" for t
  proof (cases "t = n")
    case True
    then show ?thesis using take_block [OF evs(2) _ len, of n] by auto
  next
    case False
    with that have "t < n" by simp
    then show ?thesis using take_block [OF evs(2) _ len, of t] evs(3) by auto
  qed
  have 4: "insert_indices ?evs = [0..<Suc n]"
    using evs(4) by (simp add: insert_indices_def step_block_def)
  have 5: "\<forall>e \<in> set ?evs. is_rollout_event e"
    using evs(5) by (auto simp: step_block_def is_rollout_event_def)
  have 6: "GetAction False \<notin> set ?evs"
    using evs(6) by (simp add: step_block_def)
  show ?case using 1 2 3 4 5 6 by blast
qed


lemma events_since_append [simp]: "trace s' = trace s @ evs \<Longrightarrow> events_since s s' = evs"
  by (simp add: events_since_def)

lemma episode_rollout_zero:
  "rollout_size (params s) = 0 \<Longrightarrow> episode_rollout io s = Inl UnboundLocalError"
  by (simp add: episode_rollout_def)

lemma episode_rollout_pos:
  assumes "0 < rollout_size (params s)"
  shows "\<exists>fv ent s' x. episode_rollout io s = Inr ((fv, ent), s')
     \<and> trace s' = trace (snd (rollout_loop io (rollout_size (params s)) s))
                   @ [GetState (rollout_size (params s)), GetAction False,
                      CopyFeature (rollout_size (params s))]
     \<and> params s' = params s \<and> timestamp s' = timestamp s
     \<and> storage s' = copy_feature (storage (snd (rollout_loop io (rollout_size (params s)) s)))
                       (rollout_size (params s)) x
     \<and> leaves x = {}
     \<and> leaves fv = {}"
proof -
  obtain m where m: "rollout_size (params s) = Suc m"
    using assms by (cases "rollout_size (params s)") auto
  obtain e where e: "fst (rollout_loop io (Suc m) s) = Some (m, e)"
    using rollout_loop_vars(2) by blast
  obtain v sl where l: "rollout_loop io (Suc m) s = (v, sl)" by force
  with e have v: "v = Some (m, e)" by simp
  have p: "params sl = params s" "timestamp sl = timestamp s"
    using rollout_loop_params [of io "Suc m" s] rollout_loop_timestamp [of io "Suc m" s] l
    by simp_all
  show ?thesis
    unfolding episode_rollout_def m l v
    by (auto simp add: Let_def detach_def p split: prod.splits)
qed


lemma episode_rollout_events:
  assumes "0 < rollout_size (params s)"
  shows "\<exists>fv ent s' x evs. episode_rollout io s = Inr ((fv, ent), s')
     \<and> trace s' = trace s @ evs
                   @ [GetState (rollout_size (params s)), GetAction False,
                      CopyFeature (rollout_size (params s))]
     \<and> length evs = 6 * rollout_size (params s)
     \<and> (\<forall>t<rollout_size (params s). \<exists>a d i. take 6 (drop (6 * t) evs) = step_block t a d i)
     \<and> insert_indices evs = [0..<rollout_size (params s)]
     \<and> (\<forall>e \<in> set evs. is_rollout_event e)
     \<and> GetAction False \<notin> set evs
     \<and> params s' = params s \<and> timestamp s' = timestamp s
     \<and> storage s' = copy_feature (storage (snd (rollout_loop io (rollout_size (params s)) s)))
                       (rollout_size (params s)) x
     \<and> leaves x = {}
     \<and> leaves fv = {}"
  using episode_rollout_pos [OF assms, of io]
        rollout_loop_trace [of io "rollout_size (params s)" s]
  by (elim exE conjE) (simp, blast)

section \<open>What a rollout step does\<close>

lemma rollout_step_pinned:
  assumes "get_action io (get_state (storage s) t) (world s) = ((a_t, log_p, en, val, feats), w1)"
    and "env_step io a_t w1 = ((ob, rews, dns, info), w2)"
  shows "rollout_step io t v s =
     (Some (t, case v of None \<Rightarrow> t_add_const 0 en | Some (_, e) \<Rightarrow> t_add e en),
      s\<lparr>storage := storage_insert (storage s) t rews ob a_t log_p val dns feats,
        world := react io (ResetRecurrent dns) (react io (LogEpisodeRewards info) w2),
        trace := trace s @ [GetState t, GetAction True, EnvStep a_t dns, LogEpisodeRewards info,
                            Insert t dns, ResetRecurrent dns]\<rparr>)"
  using assms by (simp add: rollout_step_def Let_def logged_def tell_def)

lemma rollout_loop_step:
  "rollout_loop io (Suc t) s =
     (Some (t, case fst (rollout_loop io t s) of
                 None \<Rightarrow> t_add_const 0 (reply_entropy (step_reply io s t))
               | Some (_, e) \<Rightarrow> t_add e (reply_entropy (step_reply io s t))),
      (snd (rollout_loop io t s))
        \<lparr>storage := storage_insert (storage (snd (rollout_loop io t s))) t
            (answer_rewards (step_answer io s t)) (answer_obs (step_answer io s t))
            (reply_actions (step_reply io s t)) (reply_log_prob (step_reply io s t))
            (reply_value (step_reply io s t)) (answer_dones (step_answer io s t))
            (reply_features (step_reply io s t)),
         world := react io (ResetRecurrent (answer_dones (step_answer io s t)))
                    (react io (LogEpisodeRewards (answer_infos (step_answer io s t)))
                       (snd (step_answer io s t))),
         trace := trace (snd (rollout_loop io t s))
                  @ step_block t (reply_actions (step_reply io s t))
                      (answer_dones (step_answer io s t)) (answer_infos (step_answer io s t))\<rparr>)"
proof -
  obtain a_t log_p en val feats w1 where r: "step_reply io s t = ((a_t, log_p, en, val, feats), w1)"
    by (metis surj_pair)
  obtain ob rews dns info w2 where e: "env_step io a_t w1 = ((ob, rews, dns, info), w2)"
    by (metis surj_pair)
  have a: "step_answer io s t = ((ob, rews, dns, info), w2)"
    by (simp add: step_answer_def r e reply_actions_def)
  have sel: "reply_actions (step_reply io s t) = a_t" "reply_log_prob (step_reply io s t) = log_p"
    "reply_entropy (step_reply io s t) = en" "reply_value (step_reply io s t) = val"
    "reply_features (step_reply io s t) = feats"
    "answer_obs (step_answer io s t) = ob" "answer_rewards (step_answer io s t) = rews"
    "answer_dones (step_answer io s t) = dns" "answer_infos (step_answer io s t) = info"
    "snd (step_answer io s t) = w2"
    by (simp_all add: r a reply_actions_def reply_log_prob_def reply_entropy_def
        reply_value_def reply_features_def answer_obs_def answer_rewards_def answer_dones_def
        answer_infos_def)
  show ?thesis
    unfolding rollout_loop_Suc sel step_block_def
    by (rule rollout_step_pinned [OF r [unfolded step_reply_def] e])
qed


lemma rollout_loop_entropy:
  "fst (rollout_loop io (Suc n) s) = Some (n, rollout_entropy io s (Suc n))"
proof (induction n)
  case 0
  show ?case
    unfolding rollout_loop_step [of io 0 s] by (simp add: rollout_entropy_def)
next
  case (Suc n)
  show ?case
    unfolding rollout_loop_step [of io "Suc n" s] Suc
    by (simp add: rollout_entropy_def)
qed

lemma rollout_loop_state:
  "storage (snd (rollout_loop io (Suc t) s))
     = storage_insert (storage (snd (rollout_loop io t s))) t
         (answer_rewards (step_answer io s t)) (answer_obs (step_answer io s t))
         (reply_actions (step_reply io s t)) (reply_log_prob (step_reply io s t))
         (reply_value (step_reply io s t)) (answer_dones (step_answer io s t))
         (reply_features (step_reply io s t))"
  "world (snd (rollout_loop io (Suc t) s))
     = react io (ResetRecurrent (answer_dones (step_answer io s t)))
         (react io (LogEpisodeRewards (answer_infos (step_answer io s t)))
            (snd (step_answer io s t)))"
  "trace (snd (rollout_loop io (Suc t) s))
     = trace (snd (rollout_loop io t s))
       @ step_block t (reply_actions (step_reply io s t))
           (answer_dones (step_answer io s t)) (answer_infos (step_answer io s t))"
  unfolding rollout_loop_step [of io t s] by simp_all

lemma rollout_loop_rows:
  assumes "t < n"
  shows "states (storage (snd (rollout_loop io n s))) (Suc t) = Some (answer_obs (step_answer io s t))"
    "actions (storage (snd (rollout_loop io n s))) t = Some (reply_actions (step_reply io s t))"
    "log_probs (storage (snd (rollout_loop io n s))) t = Some (reply_log_prob (step_reply io s t))"
    "state_values (storage (snd (rollout_loop io n s))) t = Some (reply_value (step_reply io s t))"
    "rewards (storage (snd (rollout_loop io n s))) t = Some (answer_rewards (step_answer io s t))"
    "dones (storage (snd (rollout_loop io n s))) t = Some (answer_dones (step_answer io s t))"
    "features (storage (snd (rollout_loop io n s))) t = Some (reply_features (step_reply io s t))"
  using assms
  by (induction n; simp add: rollout_loop_state storage_insert_def less_Suc_eq
      del: rollout_loop.simps(2); auto)+

lemma rollout_loop_capacity [simp]:
  "st_rollout_size (storage (snd (rollout_loop io n s))) = st_rollout_size (storage s)"
  "discount (storage (snd (rollout_loop io n s))) = discount (storage s)"
  by (induction n; simp add: rollout_loop_state storage_insert_def del: rollout_loop.simps(2))+

lemma trace_rollout_loop_mono:
  "\<exists>evs. trace (snd (rollout_loop io n s)) = trace s @ evs \<and> length evs = 6 * n"
  using rollout_loop_trace [of io n s] by blast

lemma episode_rollout_pinned:
  assumes "0 < rollout_size (params s)"
  shows "episode_rollout io s =
     Inr ((detach (reply_value (step_reply io s (rollout_size (params s)))),
           rollout_entropy io s (rollout_size (params s))),
          (snd (rollout_loop io (rollout_size (params s)) s))
            \<lparr>storage := copy_feature (storage (snd (rollout_loop io (rollout_size (params s)) s)))
                (rollout_size (params s))
                (detach (reply_features (step_reply io s (rollout_size (params s))))),
             world := snd (step_reply io s (rollout_size (params s))),
             trace := trace (snd (rollout_loop io (rollout_size (params s)) s))
                      @ [GetState (rollout_size (params s)), GetAction False,
                         CopyFeature (rollout_size (params s))]\<rparr>)"
proof -
  obtain m where m: "rollout_size (params s) = Suc m"
    using assms by (cases "rollout_size (params s)") auto
  obtain sl where l: "rollout_loop io (Suc m) s = (Some (m, rollout_entropy io s (Suc m)), sl)"
    using rollout_loop_entropy [of io m s] by (metis prod.collapse)
  obtain a lp en val feats w where r: "step_reply io s (Suc m) = ((a, lp, en, val, feats), w)"
    by (metis surj_pair)
  have q: "get_action io (get_state (storage sl) (Suc m)) (world sl) = ((a, lp, en, val, feats), w)"
    using r unfolding step_reply_def l by simp
  show ?thesis
    unfolding episode_rollout_def m l
    by (simp add: Let_def q r logged_def reply_value_def reply_features_def)
qed

section \<open>One update and the training loop\<close>

lemma assemble_loss_pinned:
  assumes "icm io (num_envs (params s)) (buffer_states (storage s)) (buffer_actions (storage s))
             (react io ZeroGrad (world s)) = ((feature, feature_pred, a_t_pred), w)"
    and "storage_a2c_loss (storage s) final_value = (policy_loss, value_loss, rews)"
  shows "assemble_loss io final_value entropy s =
     ((total_loss (params s) (net_num_actions io w) (buffer_next_features (storage s)) entropy
         policy_loss value_loss feature feature_pred a_t_pred (buffer_actions (storage s)),
       rews, feature),
      s\<lparr>world := w,
        trace := trace s @ [ZeroGrad, Icm (num_envs (params s)), StorageA2cLoss,
                            CoeffValue (sched_value (curiosity_coeff (params s)))]\<rparr>)"
  using assms by (simp add: assemble_loss_def Let_def logged_def tell_def)

lemma optimization_step_pinned:
  "optimization_step io loss rews feature s =
     s\<lparr>world := react io OptimizerStep
                  (react io (LoggerLog rews (data feature))
                     (react io (ClipGradNorm (max_grad_norm (params s)))
                        (react io (Backward loss False) (world s)))),
       trace := trace s @ [Backward loss False, ClipGradNorm (max_grad_norm (params s)),
                           LoggerLog rews (data feature), OptimizerStep]\<rparr>"
  by (simp add: optimization_step_def Let_def tell_def detach_def)

lemma bookkeeping_pinned:
  "bookkeeping io k loss s =
     s\<lparr>params := (params s)\<lparr>curiosity_coeff := sched_step (curiosity_coeff (params s))\<rparr>,
       storage := after_update (storage s),
       world := (if k mod 100 = 0
                 then react io PrintRewardStats (react io (Print (data loss) k) (world s))
                 else world s),
       trace := trace s @ [AfterUpdate, CoeffStep]
                @ (if k mod 100 = 0 then [Print (data loss) k, PrintRewardStats] else [])\<rparr>"
  by (simp add: bookkeeping_def Let_def tell_def logged_def)

lemma update_pinned:
  assumes "episode_rollout io s = Inr ((final_value, entropy), s1)"
    and "icm io (num_envs (params s1)) (buffer_states (storage s1)) (buffer_actions (storage s1))
             (react io ZeroGrad (world s1)) = ((feature, feature_pred, a_t_pred), w)"
    and "storage_a2c_loss (storage s1) final_value = (policy_loss, value_loss, rews)"
    and "loss = total_loss (params s1) (net_num_actions io w) (buffer_next_features (storage s1))
                  entropy policy_loss value_loss feature feature_pred a_t_pred
                  (buffer_actions (storage s1))"
    and "wo = react io OptimizerStep
                  (react io (LoggerLog rews (data feature))
                     (react io (ClipGradNorm (max_grad_norm (params s1)))
                        (react io (Backward loss False) w)))"
  shows "update io k s =
     Inr (s1\<lparr>params := (params s1)\<lparr>curiosity_coeff := sched_step (curiosity_coeff (params s1))\<rparr>,
             storage := after_update (storage s1),
             world := (if k mod 100 = 0
                       then react io PrintRewardStats (react io (Print (data loss) k) wo)
                       else wo),
             trace := trace s1
               @ [ZeroGrad, Icm (num_envs (params s1)), StorageA2cLoss,
                  CoeffValue (sched_value (curiosity_coeff (params s1))), Backward loss False,
                  ClipGradNorm (max_grad_norm (params s1)), LoggerLog rews (data feature),
                  OptimizerStep, AfterUpdate, CoeffStep]
               @ (if k mod 100 = 0 then [Print (data loss) k, PrintRewardStats] else [])\<rparr>)"
  unfolding update_def assms(1)
  by (simp add: assemble_loss_pinned [OF assms(2,3)] optimization_step_pinned
      bookkeeping_pinned assms(4,5))

lemma episode_rollout_Inr_pos:
  "episode_rollout io s = Inr r \<Longrightarrow> 0 < rollout_size (params s)"
  using episode_rollout_zero [of s io] by (cases "rollout_size (params s)") auto

lemma episode_rollout_result:
  assumes "episode_rollout io s = Inr ((final_value, entropy), s1)"
  shows "final_value = detach (reply_value (step_reply io s (rollout_size (params s))))"
    "entropy = rollout_entropy io s (rollout_size (params s))"
    "params s1 = params s" "timestamp s1 = timestamp s"
    "world s1 = snd (step_reply io s (rollout_size (params s)))"
    "storage s1 = copy_feature (storage (snd (rollout_loop io (rollout_size (params s)) s)))
                    (rollout_size (params s))
                    (detach (reply_features (step_reply io s (rollout_size (params s)))))"
    "trace s1 = trace (snd (rollout_loop io (rollout_size (params s)) s))
                 @ [GetState (rollout_size (params s)), GetAction False,
                    CopyFeature (rollout_size (params s))]"
  using assms episode_rollout_pinned [OF episode_rollout_Inr_pos [OF assms], of io]
  by auto

lemma rollout_loop_events:
  "\<exists>evs. trace (snd (rollout_loop io n s)) = trace s @ evs
     \<and> length evs = 6 * n
     \<and> (\<forall>t<n. take 6 (drop (6 * t) evs)
               = step_block t (reply_actions (step_reply io s t))
                   (answer_dones (step_answer io s t)) (answer_infos (step_answer io s t)))"
proof (induction n)
  case 0
  show ?case by simp
next
  case (Suc n)
  then obtain evs where evs: "trace (snd (rollout_loop io n s)) = trace s @ evs"
     "length evs = 6 * n"
     "\<forall>t<n. take 6 (drop (6 * t) evs)
               = step_block t (reply_actions (step_reply io s t))
                   (answer_dones (step_answer io s t)) (answer_infos (step_answer io s t))"
    by blast
  let ?b = "step_block n (reply_actions (step_reply io s n))
                   (answer_dones (step_answer io s n)) (answer_infos (step_answer io s n))"
  have len: "length ?b = 6" by (simp add: step_block_def)
  have 1: "trace (snd (rollout_loop io (Suc n) s)) = trace s @ (evs @ ?b)"
    by (simp add: rollout_loop_state(3) evs(1) del: rollout_loop.simps(2))
  have 2: "length (evs @ ?b) = 6 * Suc n" using evs(2) len by simp
  have 3: "take 6 (drop (6 * t) (evs @ ?b))
               = step_block t (reply_actions (step_reply io s t))
                   (answer_dones (step_answer io s t)) (answer_infos (step_answer io s t))"
    if "t < Suc n" for t
  proof (cases "t = n")
    case True
    then show ?thesis using take_block [OF evs(2) _ len, of n] by simp
  next
    case False
    with that have "t < n" by simp
    then show ?thesis using take_block [OF evs(2) _ len, of t] evs(3) by simp
  qed
  show ?case using 1 2 3 by blast
qed

lemma data_foldl_t_add:
  assumes "data a = [x]" and "\<forall>i<length ts. data (ts ! i) = [f i]"
  shows "data (foldl t_add a ts) = [x + (\<Sum>i<length ts. f i)]"
  using assms
proof (induction ts arbitrary: f rule: rev_induct)
  case Nil
  then show ?case by simp
next
  case (snoc t ts)
  have "data (ts ! i) = [f i]" if "i < length ts" for i
  proof -
    have "data ((ts @ [t]) ! i) = [f i]" using snoc.prems(2) that by simp
    then show ?thesis using that by (simp add: nth_append)
  qed
  then have "data (foldl t_add a ts) = [x + (\<Sum>i<length ts. f i)]"
    using snoc.IH [OF snoc.prems(1)] by blast
  moreover have "data t = [f (length ts)]"
    using snoc.prems(2) [rule_format, of "length ts"] by simp
  ultimately have "data (t_add (foldl t_add a ts) t) = [x + (\<Sum>i<length ts. f i) + f (length ts)]"
    by (simp add: t_add_def)
  then show ?case by (simp add: add.assoc)
qed

lemma rollout_entropy_data:
  assumes "0 < n" and "\<forall>t<n. data (reply_entropy (step_reply io s t)) = [x t]"
  shows "data (rollout_entropy io s n) = [\<Sum>t<n. x t]"
proof -
  obtain m where m: "n = Suc m" using assms(1) by (cases n) auto
  have a: "data (t_add_const 0 (reply_entropy (step_reply io s 0))) = [x 0]"
    using assms(2) m by (simp add: t_add_const_def)
  have b: "\<forall>i<length (map (\<lambda>t. reply_entropy (step_reply io s t)) [1..<n]).
      data (map (\<lambda>t. reply_entropy (step_reply io s t)) [1..<n] ! i) = [x (Suc i)]"
    using assms(2) by auto
  have "data (rollout_entropy io s n) = [x 0 + (\<Sum>i<n - 1. x (Suc i))]"
    unfolding rollout_entropy_def
    using data_foldl_t_add [OF a b] by (simp del: upt_Suc)
  moreover have "(\<Sum>t<n. x t) = x 0 + (\<Sum>i<n - 1. x (Suc i))"
    unfolding m by (simp only: sum.lessThan_Suc_shift diff_Suc_1)
  ultimately show ?thesis by simp
qed

lemma leaves_foldl_t_add:
  "leaves (foldl t_add a ts) = leaves a \<union> (\<Union>t \<in> set ts. leaves t)"
  by (induction ts arbitrary: a) (auto simp: t_add_def)

lemma next_features_after_rollout:
  assumes "episode_rollout io s = Inr ((final_value, entropy), s1)"
    and "st_rollout_size (storage s) = rollout_size (params s)"
  shows "data (buffer_next_features (storage s1))
           = concat (map (\<lambda>t. data (reply_features (step_reply io s t)))
                      [1..<Suc (rollout_size (params s))])"
    "leaves (buffer_next_features (storage s1))
           = (\<Union>t \<in> {1..<rollout_size (params s)}. leaves (reply_features (step_reply io s t)))"
proof -
  let ?T = "rollout_size (params s)"
  let ?sl = "snd (rollout_loop io ?T s)"
  have pos: "0 < ?T" by (rule episode_rollout_Inr_pos [OF assms(1)])
  have st: "storage s1 = copy_feature (storage ?sl) ?T
                    (detach (reply_features (step_reply io s ?T)))"
    by (rule episode_rollout_result(6) [OF assms(1)])
  have cap: "st_rollout_size (storage s1) = ?T"
    by (simp add: st copy_feature_def assms(2))
  have slot: "slot_t (features (storage s1)) t
      = (if t = ?T then detach (reply_features (step_reply io s ?T))
         else reply_features (step_reply io s t))" if "t \<le> ?T" for t
    using that rollout_loop_rows(7) [of t ?T io s]
    by (auto simp: st copy_feature_def slot_t_def)
  have m: "map (slot_t (features (storage s1))) [1..<Suc ?T]
      = map (\<lambda>t. if t = ?T then detach (reply_features (step_reply io s ?T))
                  else reply_features (step_reply io s t)) [1..<Suc ?T]"
    by (rule map_cong) (auto simp: slot)
  show "data (buffer_next_features (storage s1))
           = concat (map (\<lambda>t. data (reply_features (step_reply io s t))) [1..<Suc ?T])"
  proof -
    have e: "map (\<lambda>t. data (if t = ?T then detach (reply_features (step_reply io s ?T))
                  else reply_features (step_reply io s t))) [1..<Suc ?T]
      = map (\<lambda>t. data (reply_features (step_reply io s t))) [1..<Suc ?T]"
      by (rule map_cong) (auto simp: detach_def)
    have "data (buffer_next_features (storage s1))
      = concat (map (\<lambda>t. data (if t = ?T then detach (reply_features (step_reply io s ?T))
                  else reply_features (step_reply io s t))) [1..<Suc ?T])"
      unfolding buffer_next_features_def cap m
      by (simp add: t_cat_def comp_def del: upt_Suc)
    also have "\<dots> = concat (map (\<lambda>t. data (reply_features (step_reply io s t))) [1..<Suc ?T])"
      by (rule arg_cong [OF e])
    finally show ?thesis .
  qed
  show "leaves (buffer_next_features (storage s1))
           = (\<Union>t \<in> {1..<?T}. leaves (reply_features (step_reply io s t)))"
    unfolding buffer_next_features_def cap m
    using pos by (auto simp: t_cat_def detach_def split: if_splits)
qed

lemma rollout_filter_empty:
  assumes "\<forall>e \<in> set roll. is_rollout_event e"
  shows "filter is_optim_event roll = []" "filter is_coeff_event roll = []"
        "filter is_lifecycle_event roll = []"
  using assms
  by (auto simp: filter_empty_conv is_rollout_event_def is_optim_event_def is_coeff_event_def
      is_lifecycle_event_def split: event.splits)

lemma episode_rollout_trace:
  assumes "episode_rollout io s = Inr ((final_value, entropy), s1)"
  shows "\<exists>roll. trace s1 = trace s @ roll \<and> (\<forall>e \<in> set roll. is_rollout_event e)"
proof -
  have pos: "0 < rollout_size (params s)" by (rule episode_rollout_Inr_pos [OF assms])
  obtain evs where "trace s1 = trace s @ evs
                   @ [GetState (rollout_size (params s)), GetAction False,
                      CopyFeature (rollout_size (params s))]"
     "\<forall>e \<in> set evs. is_rollout_event e"
    using episode_rollout_events [OF pos, of io] assms by auto
  then have "trace s1 = trace s @ (evs @ [GetState (rollout_size (params s)), GetAction False,
                      CopyFeature (rollout_size (params s))])"
    "\<forall>e \<in> set (evs @ [GetState (rollout_size (params s)), GetAction False,
                      CopyFeature (rollout_size (params s))]). is_rollout_event e"
    by (auto simp: is_rollout_event_def)
  then show ?thesis by blast
qed

lemma update_after_rollout:
  assumes "episode_rollout io s = Inr ((final_value, entropy), s1)"
    and "icm io (num_envs (params s1)) (buffer_states (storage s1)) (buffer_actions (storage s1))
             (react io ZeroGrad (world s1)) = ((feature, feature_pred, a_t_pred), w)"
    and "storage_a2c_loss (storage s1) final_value = (policy_loss, value_loss, rews)"
    and "loss = total_loss (params s) (net_num_actions io w) (buffer_next_features (storage s1))
                  entropy policy_loss value_loss feature feature_pred a_t_pred
                  (buffer_actions (storage s1))"
    and "wo = react io OptimizerStep
                  (react io (LoggerLog rews (data feature))
                     (react io (ClipGradNorm (max_grad_norm (params s)))
                        (react io (Backward loss False) w)))"
  shows "\<exists>s'. update io k s = Inr s'
     \<and> world s' = (if k mod 100 = 0
                    then react io PrintRewardStats (react io (Print (data loss) k) wo)
                    else wo)
     \<and> params s' = (params s)\<lparr>curiosity_coeff := sched_step (curiosity_coeff (params s))\<rparr>
     \<and> storage s' = after_update (storage s1)
     \<and> timestamp s' = timestamp s
     \<and> filter is_optim_event (events_since s s')
         = [ZeroGrad, Backward loss False, ClipGradNorm (max_grad_norm (params s)),
            OptimizerStep]
     \<and> filter is_coeff_event (events_since s s')
         = [CoeffValue (sched_value (curiosity_coeff (params s))), Backward loss False,
            OptimizerStep, CoeffStep]
     \<and> filter is_lifecycle_event (events_since s s') = [ZeroGrad, OptimizerStep]
     \<and> (\<exists>evs. trace s' = trace s @ evs)"
proof -
  have p: "params s1 = params s" "timestamp s1 = timestamp s"
    using episode_rollout_result(3,4) [OF assms(1)] by simp_all
  obtain roll where roll: "trace s1 = trace s @ roll" "\<forall>e \<in> set roll. is_rollout_event e"
    using episode_rollout_trace [OF assms(1)] by blast
  let ?s' = "s1\<lparr>params := (params s1)\<lparr>curiosity_coeff := sched_step (curiosity_coeff (params s1))\<rparr>,
             storage := after_update (storage s1),
             world := (if k mod 100 = 0
                       then react io PrintRewardStats (react io (Print (data loss) k) wo)
                       else wo),
             trace := trace s1
               @ [ZeroGrad, Icm (num_envs (params s1)), StorageA2cLoss,
                  CoeffValue (sched_value (curiosity_coeff (params s1))), Backward loss False,
                  ClipGradNorm (max_grad_norm (params s1)), LoggerLog rews (data feature),
                  OptimizerStep, AfterUpdate, CoeffStep]
               @ (if k mod 100 = 0 then [Print (data loss) k, PrintRewardStats] else [])\<rparr>"
  have u: "update io k s = Inr ?s'"
    by (rule update_pinned [OF assms(1,2,3)]) (simp_all add: assms(4,5) p)
  have ev: "events_since s ?s' = roll
               @ [ZeroGrad, Icm (num_envs (params s)), StorageA2cLoss,
                  CoeffValue (sched_value (curiosity_coeff (params s))), Backward loss False,
                  ClipGradNorm (max_grad_norm (params s)), LoggerLog rews (data feature),
                  OptimizerStep, AfterUpdate, CoeffStep]
               @ (if k mod 100 = 0 then [Print (data loss) k, PrintRewardStats] else [])"
    by (rule events_since_append) (simp add: roll(1) p)
  have f1: "filter is_optim_event (events_since s ?s')
         = [ZeroGrad, Backward loss False, ClipGradNorm (max_grad_norm (params s)),
            OptimizerStep]"
    unfolding ev using rollout_filter_empty(1) [OF roll(2)] by (simp add: is_optim_event_def)
  have f2: "filter is_coeff_event (events_since s ?s')
         = [CoeffValue (sched_value (curiosity_coeff (params s))), Backward loss False,
            OptimizerStep, CoeffStep]"
    unfolding ev using rollout_filter_empty(2) [OF roll(2)] by (simp add: is_coeff_event_def)
  have f3: "filter is_lifecycle_event (events_since s ?s') = [ZeroGrad, OptimizerStep]"
    unfolding ev using rollout_filter_empty(3) [OF roll(2)]
    by (simp add: is_lifecycle_event_def)
  have t: "\<exists>evs. trace ?s' = trace s @ evs" by (simp add: roll(1))
  show ?thesis
    apply (rule exI [where x = ?s'])
    apply (intro conjI)
            apply (rule u)
           apply simp
          apply (simp add: p)
         apply simp
        apply (simp add: p)
       apply (rule f1)
      apply (rule f2)
     apply (rule f3)
    apply (rule t)
    done
qed

lemma update_Inr_replies:
  assumes "update io k s = Inr s'"
  shows "\<exists>final_value entropy s1 feature feature_pred a_t_pred w policy_loss value_loss rews.
       episode_rollout io s = Inr ((final_value, entropy), s1)
     \<and> icm io (num_envs (params s1)) (buffer_states (storage s1)) (buffer_actions (storage s1))
             (react io ZeroGrad (world s1)) = ((feature, feature_pred, a_t_pred), w)
     \<and> storage_a2c_loss (storage s1) final_value = (policy_loss, value_loss, rews)"
proof (cases "episode_rollout io s")
  case (Inl e)
  then show ?thesis using assms by (simp add: update_def)
next
  case (Inr r)
  then show ?thesis by (metis surj_pair)
qed

lemma update_returns:
  assumes "0 < rollout_size (params s)"
  shows "\<exists>s'. update io k s = Inr s'"
proof -
  obtain fv ent s1 where r: "episode_rollout io s = Inr ((fv, ent), s1)"
    using episode_rollout_pinned [OF assms, of io] by blast
  obtain feature feature_pred a_t_pred w where i:
    "icm io (num_envs (params s1)) (buffer_states (storage s1)) (buffer_actions (storage s1))
             (react io ZeroGrad (world s1)) = ((feature, feature_pred, a_t_pred), w)"
    by (metis surj_pair)
  obtain policy_loss value_loss rews where a:
    "storage_a2c_loss (storage s1) fv = (policy_loss, value_loss, rews)"
    by (metis surj_pair)
  show ?thesis using update_after_rollout [OF r i a refl refl, of k] by blast
qed

lemma update_Inr_facts:
  assumes "update io k s = Inr s'"
  shows "params s' = (params s)\<lparr>curiosity_coeff := sched_step (curiosity_coeff (params s))\<rparr>"
    "timestamp s' = timestamp s"
    "filter is_lifecycle_event (events_since s s') = [ZeroGrad, OptimizerStep]"
    "\<exists>evs. trace s' = trace s @ evs"
    "st_rollout_size (storage s') = st_rollout_size (storage s)"
proof -
  obtain fv ent s1 feature feature_pred a_t_pred w policy_loss value_loss rews where
    r: "episode_rollout io s = Inr ((fv, ent), s1)"
    and i: "icm io (num_envs (params s1)) (buffer_states (storage s1)) (buffer_actions (storage s1))
             (react io ZeroGrad (world s1)) = ((feature, feature_pred, a_t_pred), w)"
    and a: "storage_a2c_loss (storage s1) fv = (policy_loss, value_loss, rews)"
    using update_Inr_replies [OF assms] by blast
  have c: "st_rollout_size (storage s1) = st_rollout_size (storage s)"
    by (simp add: episode_rollout_result(6) [OF r] copy_feature_def)
  from update_after_rollout [OF r i a refl refl, of k] assms
  show "params s' = (params s)\<lparr>curiosity_coeff := sched_step (curiosity_coeff (params s))\<rparr>"
    "timestamp s' = timestamp s"
    "filter is_lifecycle_event (events_since s s') = [ZeroGrad, OptimizerStep]"
    "\<exists>evs. trace s' = trace s @ evs"
    "st_rollout_size (storage s') = st_rollout_size (storage s)"
    by (auto simp: after_update_def c)
qed

lemma events_since_trans:
  assumes "trace b = trace a @ x" and "trace c = trace b @ y"
  shows "events_since a c = events_since a b @ events_since b c"
  using assms by (simp add: events_since_def)

lemma run_updates_facts:
  assumes "run_updates io n s = Inr sn"
  shows "params sn = (params s)\<lparr>curiosity_coeff := (sched_step ^^ n) (curiosity_coeff (params s))\<rparr>"
    "timestamp sn = timestamp s"
    "st_rollout_size (storage sn) = st_rollout_size (storage s)"
    "\<exists>evs. trace sn = trace s @ evs"
    "filter is_lifecycle_event (events_since s sn)
       = concat (replicate n [ZeroGrad, OptimizerStep])"
  using assms
proof (induction n arbitrary: sn)
  case 0
  {
    case 1 then show ?case by simp
  next
    case 2 then show ?case by simp
  next
    case 3 then show ?case by simp
  next
    case 4 then show ?case by simp
  next
    case 5 then show ?case by (simp add: events_since_def)
  }
next
  case (Suc n)
  {
    fix sn assume run: "run_updates io (Suc n) s = Inr sn"
    then obtain sk where sk: "run_updates io n s = Inr sk" "update io n sk = Inr sn"
      by (cases "run_updates io n s") auto
    note ih = Suc(1-5) [OF sk(1)]
    note up = update_Inr_facts [OF sk(2)]
    obtain x where x: "trace sk = trace s @ x" using ih(4) by blast
    obtain y where y: "trace sn = trace sk @ y" using up(4) by blast
    have rep: "concat (replicate n [ZeroGrad, OptimizerStep]) @ [ZeroGrad, OptimizerStep]
        = concat (replicate (Suc n) [ZeroGrad, OptimizerStep])"
      by (induction n) simp_all
    have "params sn = (params s)\<lparr>curiosity_coeff := (sched_step ^^ Suc n) (curiosity_coeff (params s))\<rparr>"
      "timestamp sn = timestamp s"
      "st_rollout_size (storage sn) = st_rollout_size (storage s)"
      "\<exists>evs. trace sn = trace s @ evs"
      "filter is_lifecycle_event (events_since s sn)
         = concat (replicate (Suc n) [ZeroGrad, OptimizerStep])"
      using ih(1,2,3,5) up(1,2,3,5) x y rep
      by (simp_all add: events_since_trans [OF x y])
  }
  note step = this
  {
    case 1 then show ?case using step(1) by blast
  next
    case 2 then show ?case using step(2) by blast
  next
    case 3 then show ?case using step(3) by blast
  next
    case 4 then show ?case using step(4) by blast
  next
    case 5 then show ?case using step(5) by blast
  }
qed

lemma run_updates_returns:
  assumes "0 < rollout_size (params s)"
  shows "\<exists>sn. run_updates io n s = Inr sn"
proof (induction n)
  case 0
  show ?case by simp
next
  case (Suc n)
  then obtain sk where sk: "run_updates io n s = Inr sk" by blast
  have "0 < rollout_size (params sk)"
    using assms run_updates_facts(1) [OF sk] by simp
  then show ?case using update_returns [of sk io n] sk by auto
qed

section \<open>The rollout phase: claims\<close>

lemma take_seven:
  "take 7 (drop k xs) = take 6 (drop k xs) @ take 1 (drop (k + 6) xs)"
  using take_add [of 6 1 "drop k xs"] by (simp add: add.commute)

lemma step_reply_Suc:
  "step_reply io s (Suc t)
     = get_action io (answer_obs (step_answer io s t))
         (react io (ResetRecurrent (answer_dones (step_answer io s t)))
            (react io (LogEpisodeRewards (answer_infos (step_answer io s t)))
               (snd (step_answer io s t))))"
  using rollout_loop_rows(1) [of t "Suc t" io s]
  by (simp add: step_reply_def rollout_loop_state(2) get_state_def slot_l_def
      del: rollout_loop.simps(2))

lemma actions_after_rollout:
  assumes "episode_rollout io s = Inr ((final_value, entropy), s1)"
    and "st_rollout_size (storage s) = rollout_size (params s)"
  shows "buffer_actions (storage s1)
           = concat (map (\<lambda>t. reply_actions (step_reply io s t)) [0..<rollout_size (params s)])"
proof -
  let ?T = "rollout_size (params s)"
  have st: "storage s1 = copy_feature (storage (snd (rollout_loop io ?T s))) ?T
                    (detach (reply_features (step_reply io s ?T)))"
    by (rule episode_rollout_result(6) [OF assms(1)])
  have cap: "st_rollout_size (storage s1) = ?T"
    by (simp add: st copy_feature_def assms(2))
  have m: "map (slot_l (actions (storage s1))) [0..<?T]
      = map (\<lambda>t. reply_actions (step_reply io s t)) [0..<?T]"
    by (rule map_cong)
       (auto simp: st copy_feature_def slot_l_def rollout_loop_rows(2) [of _ ?T io s])
  show ?thesis
    unfolding buffer_actions_def cap by (rule arg_cong [OF m])
qed

text \<open>
  C4. For a rollout size \<open>T > 0\<close>, one rollout phase returns; it calls \<open>insert\<close>
  exactly \<open>T\<close> times, at the indices \<open>0, \<dots>, T - 1\<close> in this order, and every step
  \<open>t < T\<close> leaves in the buffer what the agent and the environment answered at that
  step (action, log-probability, value, reward, done flags and feature in slot \<open>t\<close>, the
  observation in state slot \<open>t + 1\<close>). Its last three calls are \<open>get_state(T)\<close>, the
  one agent query made without gradient, and the write of feature slot \<open>T\<close>: the query
  is made on the observation of the last step in the world the last reset has left, the
  value returned is the detached value of that reply, and feature slot \<open>T\<close> holds the
  detached feature of that reply. From empty tables the action and reward tables end
  with \<open>T\<close> filled entries and the feature table with \<open>T + 1\<close>.
\<close>

theorem rollout_fills_buffer:
  assumes "0 < rollout_size (params s)"
  shows "\<exists>s'. episode_rollout io s
         = Inr ((detach (reply_value (step_reply io s (rollout_size (params s)))),
                 rollout_entropy io s (rollout_size (params s))), s')
     \<and> insert_indices (events_since s s') = [0..<rollout_size (params s)]
     \<and> drop (6 * rollout_size (params s)) (events_since s s')
         = [GetState (rollout_size (params s)), GetAction False,
            CopyFeature (rollout_size (params s))]
     \<and> filter (\<lambda>e. e = GetAction False) (events_since s s') = [GetAction False]
     \<and> step_reply io s (rollout_size (params s))
         = get_action io (answer_obs (step_answer io s (rollout_size (params s) - 1)))
             (react io (ResetRecurrent (answer_dones (step_answer io s (rollout_size (params s) - 1))))
                (react io (LogEpisodeRewards
                             (answer_infos (step_answer io s (rollout_size (params s) - 1))))
                   (snd (step_answer io s (rollout_size (params s) - 1)))))
     \<and> world s' = snd (step_reply io s (rollout_size (params s)))
     \<and> features (storage s') (rollout_size (params s))
         = Some (detach (reply_features (step_reply io s (rollout_size (params s)))))
     \<and> leaves (detach (reply_features (step_reply io s (rollout_size (params s))))) = {}
     \<and> leaves (detach (reply_value (step_reply io s (rollout_size (params s))))) = {}
     \<and> (\<forall>t<rollout_size (params s).
           states (storage s') (Suc t) = Some (answer_obs (step_answer io s t))
         \<and> actions (storage s') t = Some (reply_actions (step_reply io s t))
         \<and> log_probs (storage s') t = Some (reply_log_prob (step_reply io s t))
         \<and> state_values (storage s') t = Some (reply_value (step_reply io s t))
         \<and> rewards (storage s') t = Some (answer_rewards (step_answer io s t))
         \<and> dones (storage s') t = Some (answer_dones (step_answer io s t))
         \<and> features (storage s') t = Some (reply_features (step_reply io s t)))
     \<and> dom (states (storage s')) = dom (states (storage s)) \<union> {1..rollout_size (params s)}
     \<and> dom (actions (storage s')) = dom (actions (storage s)) \<union> {0..<rollout_size (params s)}
     \<and> dom (rewards (storage s')) = dom (rewards (storage s)) \<union> {0..<rollout_size (params s)}
     \<and> dom (features (storage s')) = dom (features (storage s)) \<union> {0..rollout_size (params s)}
     \<and> (dom (actions (storage s)) = {} \<and> dom (rewards (storage s)) = {}
          \<and> dom (features (storage s)) = {} \<longrightarrow>
        card (dom (actions (storage s'))) = rollout_size (params s)
        \<and> card (dom (rewards (storage s'))) = rollout_size (params s)
        \<and> card (dom (features (storage s'))) = rollout_size (params s) + 1)"
proof -
  let ?T = "rollout_size (params s)"
  let ?sl = "snd (rollout_loop io ?T s)"
  let ?s' = "?sl\<lparr>storage := copy_feature (storage ?sl) ?T
                (detach (reply_features (step_reply io s ?T))),
             world := snd (step_reply io s ?T),
             trace := trace ?sl @ [GetState ?T, GetAction False, CopyFeature ?T]\<rparr>"
  have r: "episode_rollout io s
     = Inr ((detach (reply_value (step_reply io s ?T)), rollout_entropy io s ?T), ?s')"
    by (rule episode_rollout_pinned [OF assms])
  obtain evs where evs: "trace ?sl = trace s @ evs" "length evs = 6 * ?T"
     "insert_indices evs = [0..<?T]" "GetAction False \<notin> set evs"
    using rollout_loop_trace [of io ?T s] by blast
  have ev: "events_since s ?s' = evs @ [GetState ?T, GetAction False, CopyFeature ?T]"
    by (rule events_since_append) (simp add: evs(1))
  have f: "filter (\<lambda>e. e = GetAction False) evs = []"
    using evs(4) by (auto simp: filter_empty_conv)
  have 1: "insert_indices (events_since s ?s') = [0..<?T]"
    using evs(3) by (simp add: ev insert_indices_def)
  have 2: "drop (6 * ?T) (events_since s ?s') = [GetState ?T, GetAction False, CopyFeature ?T]"
    using evs(2) by (simp add: ev)
  have 3: "filter (\<lambda>e. e = GetAction False) (events_since s ?s') = [GetAction False]"
    using f by (simp add: ev)
  obtain m where m: "?T = Suc m" using assms by (cases ?T) auto
  have 4: "step_reply io s ?T
         = get_action io (answer_obs (step_answer io s (?T - 1)))
             (react io (ResetRecurrent (answer_dones (step_answer io s (?T - 1))))
                (react io (LogEpisodeRewards (answer_infos (step_answer io s (?T - 1))))
                   (snd (step_answer io s (?T - 1)))))"
    unfolding m by (simp add: step_reply_Suc)
  have 5: "states (storage ?s') (Suc t) = Some (answer_obs (step_answer io s t))
         \<and> actions (storage ?s') t = Some (reply_actions (step_reply io s t))
         \<and> log_probs (storage ?s') t = Some (reply_log_prob (step_reply io s t))
         \<and> state_values (storage ?s') t = Some (reply_value (step_reply io s t))
         \<and> rewards (storage ?s') t = Some (answer_rewards (step_answer io s t))
         \<and> dones (storage ?s') t = Some (answer_dones (step_answer io s t))
         \<and> features (storage ?s') t = Some (reply_features (step_reply io s t))"
    if "t < ?T" for t
    using that rollout_loop_rows [OF that, of io s] by (simp add: copy_feature_def)
  have 6: "dom (states (storage ?s')) = dom (states (storage s)) \<union> {1..?T}"
    "dom (actions (storage ?s')) = dom (actions (storage s)) \<union> {0..<?T}"
    "dom (rewards (storage ?s')) = dom (rewards (storage s)) \<union> {0..<?T}"
    by (simp_all add: copy_feature_def rollout_loop_storage)
  have 7: "dom (features (storage ?s')) = dom (features (storage s)) \<union> {0..?T}"
    by (auto simp add: copy_feature_def rollout_loop_storage)
  have 9: "dom (actions (storage s)) = {} \<and> dom (rewards (storage s)) = {}
          \<and> dom (features (storage s)) = {} \<longrightarrow>
        card (dom (actions (storage ?s'))) = ?T
        \<and> card (dom (rewards (storage ?s'))) = ?T
        \<and> card (dom (features (storage ?s'))) = ?T + 1"
  proof (intro impI)
    assume e: "dom (actions (storage s)) = {} \<and> dom (rewards (storage s)) = {}
          \<and> dom (features (storage s)) = {}"
    show "card (dom (actions (storage ?s'))) = ?T
        \<and> card (dom (rewards (storage ?s'))) = ?T
        \<and> card (dom (features (storage ?s'))) = ?T + 1"
      unfolding 6 7 using e by simp
  qed
  have 8: "features (storage ?s') ?T = Some (detach (reply_features (step_reply io s ?T)))"
    "world ?s' = snd (step_reply io s ?T)"
    by (simp_all add: copy_feature_def)
  show ?thesis
    apply (rule exI [where x = ?s'])
    apply (intro conjI)
                 apply (rule r)
                apply (rule 1)
               apply (rule 2)
              apply (rule 3)
             apply (rule 4)
            apply (rule 8(2))
           apply (rule 8(1))
          apply (simp add: detach_def)
         apply (simp add: detach_def)
        apply (use 5 in blast)
       apply (rule 6(1))
      apply (rule 6(2))
     apply (rule 6(3))
    apply (rule 7)
    apply (rule 9)
    done
qed

text \<open>
  C7. In every rollout step \<open>t\<close> the calls are, in this order: the read of state slot
  \<open>t\<close>, the agent query, the environment step with the actions of the reply, the episode
  reward log, the insert of the transition with the done flags the environment step
  returned, the reset of the recurrent state with the same flags, and only then the
  next read of a state slot, \<open>get_state(t + 1)\<close>. The buffer after the step is the
  insert of that step's answers, the collaborators after the step have been told the
  reset with those flags, and the next agent query (that of step \<open>t + 1\<close>, or the
  bootstrap query) is made in the world the reset has left.
\<close>

theorem reset_before_next_state:
  assumes "t < rollout_size (params s)"
  shows "\<exists>s'. episode_rollout io s
         = Inr ((detach (reply_value (step_reply io s (rollout_size (params s)))),
                 rollout_entropy io s (rollout_size (params s))), s')
     \<and> world s' = snd (step_reply io s (rollout_size (params s)))
     \<and> take 7 (drop (6 * t) (events_since s s'))
         = [GetState t, GetAction True,
            EnvStep (reply_actions (step_reply io s t)) (answer_dones (step_answer io s t)),
            LogEpisodeRewards (answer_infos (step_answer io s t)),
            Insert t (answer_dones (step_answer io s t)),
            ResetRecurrent (answer_dones (step_answer io s t)), GetState (Suc t)]
     \<and> step_answer io s t
         = env_step io (reply_actions (step_reply io s t)) (snd (step_reply io s t))
     \<and> storage (snd (rollout_loop io (Suc t) s))
         = storage_insert (storage (snd (rollout_loop io t s))) t
             (answer_rewards (step_answer io s t)) (answer_obs (step_answer io s t))
             (reply_actions (step_reply io s t)) (reply_log_prob (step_reply io s t))
             (reply_value (step_reply io s t)) (answer_dones (step_answer io s t))
             (reply_features (step_reply io s t))
     \<and> world (snd (rollout_loop io (Suc t) s))
         = react io (ResetRecurrent (answer_dones (step_answer io s t)))
             (react io (LogEpisodeRewards (answer_infos (step_answer io s t)))
                (snd (step_answer io s t)))
     \<and> step_reply io s (Suc t)
         = get_action io (answer_obs (step_answer io s t))
             (react io (ResetRecurrent (answer_dones (step_answer io s t)))
                (react io (LogEpisodeRewards (answer_infos (step_answer io s t)))
                   (snd (step_answer io s t))))"
proof -
  let ?T = "rollout_size (params s)"
  let ?sl = "snd (rollout_loop io ?T s)"
  let ?s' = "?sl\<lparr>storage := copy_feature (storage ?sl) ?T
                (detach (reply_features (step_reply io s ?T))),
             world := snd (step_reply io s ?T),
             trace := trace ?sl @ [GetState ?T, GetAction False, CopyFeature ?T]\<rparr>"
  have pos: "0 < ?T" using assms by simp
  have r: "episode_rollout io s
     = Inr ((detach (reply_value (step_reply io s ?T)), rollout_entropy io s ?T), ?s')"
    by (rule episode_rollout_pinned [OF pos])
  obtain evs where evs: "trace ?sl = trace s @ evs" "length evs = 6 * ?T"
     "\<forall>t<?T. take 6 (drop (6 * t) evs)
               = step_block t (reply_actions (step_reply io s t))
                   (answer_dones (step_answer io s t)) (answer_infos (step_answer io s t))"
    using rollout_loop_events [of io ?T s] by blast
  let ?all = "evs @ [GetState ?T, GetAction False, CopyFeature ?T]"
  have ev: "events_since s ?s' = ?all"
    by (rule events_since_append) (simp add: evs(1))
  have six: "take 6 (drop (6 * t) ?all)
       = step_block t (reply_actions (step_reply io s t))
           (answer_dones (step_answer io s t)) (answer_infos (step_answer io s t))"
    using evs(2,3) assms by simp
  have nxt: "take 1 (drop (6 * t + 6) ?all) = [GetState (Suc t)]"
  proof (cases "Suc t = ?T")
    case True
    then have "6 * t + 6 = length evs" using evs(2) by simp
    then show ?thesis using True by simp
  next
    case False
    then have lt: "Suc t < ?T" using assms by simp
    then have "take 6 (drop (6 * Suc t) evs)
       = step_block (Suc t) (reply_actions (step_reply io s (Suc t)))
           (answer_dones (step_answer io s (Suc t))) (answer_infos (step_answer io s (Suc t)))"
      using evs(3) by blast
    then have "take 1 (take 6 (drop (6 * Suc t) evs)) = [GetState (Suc t)]"
      by (simp add: step_block_def)
    then have "take 1 (drop (6 * t + 6) evs) = [GetState (Suc t)]"
      by (simp add: add.commute)
    moreover have "6 * t + 6 < length evs" using lt evs(2) by simp
    ultimately show ?thesis by simp
  qed
  have win: "take 7 (drop (6 * t) (events_since s ?s'))
         = [GetState t, GetAction True,
            EnvStep (reply_actions (step_reply io s t)) (answer_dones (step_answer io s t)),
            LogEpisodeRewards (answer_infos (step_answer io s t)),
            Insert t (answer_dones (step_answer io s t)),
            ResetRecurrent (answer_dones (step_answer io s t)), GetState (Suc t)]"
    unfolding ev take_seven six nxt by (simp add: step_block_def)
  show ?thesis
    apply (rule exI [where x = ?s'])
    apply (intro conjI)
          apply (rule r)
         apply simp
        apply (rule win)
       apply (simp add: step_answer_def)
      apply (rule rollout_loop_state(1))
     apply (rule rollout_loop_state(2))
    apply (rule step_reply_Suc)
    done
qed

text \<open>
  C9. With a rollout size of 0 the loop body never runs, the loop variable stays unbound
  and the bootstrap query fails on it: \<^verbatim>\<open>episode_rollout\<close> (and with it the update)
  raises instead of returning. With a rollout size of at least 1 it returns.
\<close>

theorem rollout_needs_a_step:
  "(rollout_size (params s) = 0 \<longrightarrow>
      rollout_loop io (rollout_size (params s)) s = (None, s)
      \<and> episode_rollout io s = Inl UnboundLocalError
      \<and> update io k s = Inl UnboundLocalError)
   \<and> (0 < rollout_size (params s) \<longrightarrow> (\<exists>r. episode_rollout io s = Inr r))"
  using episode_rollout_pos [of s io]
  by (auto simp: episode_rollout_zero update_def)

section \<open>The total objective of an update\<close>

text \<open>
  C1 (amended). In every update whose rollout returned, the tensor handed to
  \<^verbatim>\<open>backward\<close> (told to the collaborators after the gradients were zeroed and the
  curiosity module was queried, before clipping and the optimizer step) has the value
  \<open>policy_loss + value_coeff \<cdot> value_loss - entropy_coeff \<cdot> entropy + forward_loss +
  inverse_loss - curiosity_coeff \<cdot> curiosity_loss\<close>. Here the policy and value loss
  are what the buffer computes from the bootstrap value, the entropy is the sum of the
  entropies of the rollout's agent replies, the forward loss is the mean squared
  difference between the predicted features and the feature output of the curiosity
  module, the inverse loss is the cross-entropy of the predicted actions against the
  buffer's actions, and the subtracted curiosity loss is the mean squared difference
  between the features recorded in buffer slots 1 to \<open>T\<close> and the predicted features.
  The two squared-error terms are the same quantity when the recorded features equal
  the module's feature output.
\<close>

theorem backward_objective_value:
  assumes "episode_rollout io s = Inr ((final_value, entropy), s1)"
    and "icm io (num_envs (params s1)) (buffer_states (storage s1)) (buffer_actions (storage s1))
             (react io ZeroGrad (world s1)) = ((feature, feature_pred, a_t_pred), w)"
    and "storage_a2c_loss (storage s1) final_value = (policy_loss, value_loss, rews)"
    and "loss = total_loss (params s) (net_num_actions io w) (buffer_next_features (storage s1))
                  entropy policy_loss value_loss feature feature_pred a_t_pred
                  (buffer_actions (storage s1))"
    and "wo = react io OptimizerStep
                  (react io (LoggerLog rews (data feature))
                     (react io (ClipGradNorm (max_grad_norm (params s)))
                        (react io (Backward loss False) w)))"
    and "data policy_loss = [pl]" and "data value_loss = [vl]" and "data entropy = [en]"
  shows "\<exists>s'. update io k s = Inr s'
     \<and> filter is_optim_event (events_since s s')
         = [ZeroGrad, Backward loss False, ClipGradNorm (max_grad_norm (params s)),
            OptimizerStep]
     \<and> world s' = (if k mod 100 = 0
                    then react io PrintRewardStats (react io (Print (data loss) k) wo)
                    else wo)
     \<and> data loss =
           [pl + value_coeff (params s) * vl - entropy_coeff (params s) * en
            + mean_val (map (\<lambda>x. x\<^sup>2) (map2 (-) (data feature_pred) (data feature)))
            + cross_entropy (view_rows (net_num_actions io w) (data a_t_pred))
                (buffer_actions (storage s1))
            - sched_value (curiosity_coeff (params s))
              * mean_val (map (\<lambda>x. x\<^sup>2)
                  (map2 (-) (data (buffer_next_features (storage s1))) (data feature_pred)))]
     \<and> entropy = rollout_entropy io s (rollout_size (params s))
     \<and> (\<forall>x. (\<forall>t<rollout_size (params s). data (reply_entropy (step_reply io s t)) = [x t])
            \<longrightarrow> en = (\<Sum>t<rollout_size (params s). x t))
     \<and> final_value = detach (reply_value (step_reply io s (rollout_size (params s))))
     \<and> (st_rollout_size (storage s) = rollout_size (params s) \<longrightarrow>
          data (buffer_next_features (storage s1))
            = concat (map (\<lambda>t. data (reply_features (step_reply io s t)))
                       [1..<Suc (rollout_size (params s))])
        \<and> buffer_actions (storage s1)
            = concat (map (\<lambda>t. reply_actions (step_reply io s t))
                       [0..<rollout_size (params s)]))
     \<and> (data (buffer_next_features (storage s1)) = data feature \<longrightarrow>
          mean_val (map (\<lambda>x. x\<^sup>2)
             (map2 (-) (data (buffer_next_features (storage s1))) (data feature_pred)))
          = mean_val (map (\<lambda>x. x\<^sup>2) (map2 (-) (data feature_pred) (data feature))))"
proof -
  let ?T = "rollout_size (params s)"
  obtain s' where u: "update io k s = Inr s'"
     "world s' = (if k mod 100 = 0
                    then react io PrintRewardStats (react io (Print (data loss) k) wo)
                    else wo)"
     "filter is_optim_event (events_since s s')
         = [ZeroGrad, Backward loss False, ClipGradNorm (max_grad_norm (params s)),
            OptimizerStep]"
    using update_after_rollout [OF assms(1,2,3,4,5), of k] by blast
  have d: "data loss =
           [pl + value_coeff (params s) * vl - entropy_coeff (params s) * en
            + mean_val (map (\<lambda>x. x\<^sup>2) (map2 (-) (data feature_pred) (data feature)))
            + cross_entropy (view_rows (net_num_actions io w) (data a_t_pred))
                (buffer_actions (storage s1))
            - sched_value (curiosity_coeff (params s))
              * mean_val (map (\<lambda>x. x\<^sup>2)
                  (map2 (-) (data (buffer_next_features (storage s1))) (data feature_pred)))]"
    unfolding assms(4) by (rule total_loss_data [OF assms(6,7,8)])
  have e: "entropy = rollout_entropy io s ?T"
    by (rule episode_rollout_result(2) [OF assms(1)])
  have pos: "0 < ?T" by (rule episode_rollout_Inr_pos [OF assms(1)])
  have es: "en = (\<Sum>t<?T. x t)"
    if "\<forall>t<?T. data (reply_entropy (step_reply io s t)) = [x t]" for x
    using rollout_entropy_data [OF pos that] assms(8) e by simp
  have fv: "final_value = detach (reply_value (step_reply io s ?T))"
    by (rule episode_rollout_result(1) [OF assms(1)])
  have buf: "data (buffer_next_features (storage s1))
            = concat (map (\<lambda>t. data (reply_features (step_reply io s t))) [1..<Suc ?T])
        \<and> buffer_actions (storage s1)
            = concat (map (\<lambda>t. reply_actions (step_reply io s t)) [0..<?T])"
    if "st_rollout_size (storage s) = ?T"
    using next_features_after_rollout(1) [OF assms(1) that]
      actions_after_rollout [OF assms(1) that] by blast
  have same: "mean_val (map (\<lambda>x. x\<^sup>2)
             (map2 (-) (data (buffer_next_features (storage s1))) (data feature_pred)))
          = mean_val (map (\<lambda>x. x\<^sup>2) (map2 (-) (data feature_pred) (data feature)))"
    if "data (buffer_next_features (storage s1)) = data feature"
    using squares_swap [of "data feature" "data feature_pred"] that by simp
  show ?thesis
    apply (rule exI [where x = s'])
    apply (intro conjI)
            apply (rule u(1))
           apply (rule u(3))
          apply (rule u(2))
         apply (rule d)
        apply (rule e)
       apply (use es in blast)
      apply (rule fv)
     apply (use buf in blast)
    apply (use same in blast)
    done
qed

text \<open>
  C2 (amended). In every update whose rollout returned, the tensor handed to
  \<^verbatim>\<open>backward\<close> is the A2C loss plus the forward and inverse loss minus the weighted
  curiosity loss. The curiosity loss is the mean squared difference between the features
  recorded in buffer slots 1 to \<open>T\<close> and the detached prediction: its backward pass
  reaches exactly the graphs of the features the agent returned at steps 1 to \<open>T - 1\<close>
  (slot \<open>T\<close> was recorded without gradient) and nothing of the predictor. The forward
  loss of \<^verbatim>\<open>icm_loss\<close> is the mean squared error between the prediction and the module's
  own feature output, and reaches the graphs of both.
\<close>

theorem curiosity_gradient_in_update:
  assumes "episode_rollout io s = Inr ((final_value, entropy), s1)"
    and "icm io (num_envs (params s1)) (buffer_states (storage s1)) (buffer_actions (storage s1))
             (react io ZeroGrad (world s1)) = ((feature, feature_pred, a_t_pred), w)"
    and "storage_a2c_loss (storage s1) final_value = (policy_loss, value_loss, rews)"
    and "loss = total_loss (params s) (net_num_actions io w) (buffer_next_features (storage s1))
                  entropy policy_loss value_loss feature feature_pred a_t_pred
                  (buffer_actions (storage s1))"
    and "wo = react io OptimizerStep
                  (react io (LoggerLog rews (data feature))
                     (react io (ClipGradNorm (max_grad_norm (params s)))
                        (react io (Backward loss False) w)))"
    and "st_rollout_size (storage s) = rollout_size (params s)"
  shows "\<exists>s'. update io k s = Inr s'
     \<and> filter is_optim_event (events_since s s')
         = [ZeroGrad, Backward loss False, ClipGradNorm (max_grad_norm (params s)),
            OptimizerStep]
     \<and> world s' = (if k mod 100 = 0
                    then react io PrintRewardStats (react io (Print (data loss) k) wo)
                    else wo)
     \<and> loss = t_sub (t_add (a2c_loss (params s) entropy policy_loss value_loss)
                       (t_add (loss_fwd feature_pred feature)
                              (loss_inv (net_num_actions io w) a_t_pred
                                 (buffer_actions (storage s1)))))
                (t_scale (sched_value (curiosity_coeff (params s)))
                   (curiosity_loss (buffer_next_features (storage s1)) feature_pred))
     \<and> data (curiosity_loss (buffer_next_features (storage s1)) feature_pred)
         = [mean_val (map (\<lambda>x. x\<^sup>2)
              (map2 (-) (concat (map (\<lambda>t. data (reply_features (step_reply io s t)))
                                   [1..<Suc (rollout_size (params s))]))
                        (data feature_pred)))]
     \<and> leaves (curiosity_loss (buffer_next_features (storage s1)) feature_pred)
         = (\<Union>t \<in> {1..<rollout_size (params s)}. leaves (reply_features (step_reply io s t)))
     \<and> data (loss_fwd feature_pred feature)
         = [mean_val (map (\<lambda>x. x\<^sup>2) (map2 (-) (data feature_pred) (data feature)))]
     \<and> leaves (loss_fwd feature_pred feature) = leaves feature_pred \<union> leaves feature
     \<and> leaves loss
         = leaves policy_loss \<union> leaves value_loss \<union> leaves entropy \<union> leaves feature_pred
           \<union> leaves feature \<union> leaves a_t_pred
           \<union> (\<Union>t \<in> {1..<rollout_size (params s)}. leaves (reply_features (step_reply io s t)))"
proof -
  obtain s' where u: "update io k s = Inr s'"
     "world s' = (if k mod 100 = 0
                    then react io PrintRewardStats (react io (Print (data loss) k) wo)
                    else wo)"
     "filter is_optim_event (events_since s s')
         = [ZeroGrad, Backward loss False, ClipGradNorm (max_grad_norm (params s)),
            OptimizerStep]"
    using update_after_rollout [OF assms(1,2,3,4,5), of k] by blast
  note nf = next_features_after_rollout [OF assms(1,6)]
  show ?thesis
    apply (rule exI [where x = s'])
    apply (intro conjI)
            apply (rule u(1))
           apply (rule u(3))
          apply (rule u(2))
         apply (simp only: assms(4) total_loss_parts)
        apply (simp only: curiosity_loss_parts(1) nf(1))
       apply (simp only: curiosity_loss_parts(2) nf(2))
      apply (rule curiosity_loss_parts(3))
     apply (rule curiosity_loss_parts(4))
    apply (simp only: assms(4) total_loss_leaves nf(2))
    done
qed

text \<open>
  C1 as stated fails: with recorded feature 3, module feature 1 and prediction 0 the
  forward loss inside the curiosity sum is 1 and the inverse loss is 0, but the
  objective is \<open>1 + 0 - 1 \<cdot> 9 = - 8\<close>, not \<open>1 + 0 - 1 \<cdot> 1 = 0\<close>: the subtracted term is
  measured against the recorded features, not against the module's.
\<close>

theorem total_loss_same_forward_counterexample:
  "data (loss_fwd \<lparr>data = [0], leaves = {}\<rparr> \<lparr>data = [1], leaves = {}\<rparr>) = [1]
   \<and> data (loss_inv 1 \<lparr>data = [0], leaves = {}\<rparr> [0]) = [0]
   \<and> data (total_loss toy_params 1 \<lparr>data = [3], leaves = {}\<rparr> \<lparr>data = [0], leaves = {}\<rparr>
            \<lparr>data = [0], leaves = {}\<rparr> \<lparr>data = [0], leaves = {}\<rparr> \<lparr>data = [1], leaves = {}\<rparr>
            \<lparr>data = [0], leaves = {}\<rparr> \<lparr>data = [0], leaves = {}\<rparr> [0])
       \<noteq> [0 + value_coeff toy_params * 0 - entropy_coeff toy_params * 0 + 1 + 0
           - sched_value (curiosity_coeff toy_params) * 1]"
  by (simp add: total_loss_def a2c_loss_def icm_loss_def loss_fwd_def loss_inv_def
        curiosity_loss_def mse_loss_def t_sub_def t_add_def t_scale_def t_mean_def t_pow_def
        detach_def toy_params_def cross_entropy_def view_rows_def nll_row_def mean_val_def)

text \<open>
  C2 as stated fails: with recorded features on the graph of the encoder and a
  prediction on the graph of the forward model, the backward pass of the curiosity loss
  reaches the encoder behind the recorded features and does not reach the predictor.
\<close>

theorem curiosity_loss_detached_target_counterexample:
  "''encoder'' \<in> leaves (curiosity_loss \<lparr>data = [1], leaves = {''encoder''}\<rparr>
                                         \<lparr>data = [0], leaves = {''icm_forward''}\<rparr>)
   \<and> ''icm_forward'' \<notin> leaves (curiosity_loss \<lparr>data = [1], leaves = {''encoder''}\<rparr>
                                               \<lparr>data = [0], leaves = {''icm_forward''}\<rparr>)"
  by (simp add: curiosity_loss_def mse_loss_def t_mean_def t_pow_def t_sub_def detach_def)

section \<open>Order within an update, and the run\<close>

text \<open>
  C5. In update \<open>k\<close> of a run whose rollout returned, the loss handed to
  \<^verbatim>\<open>backward\<close> is assembled with the value the schedule has after \<open>k\<close> steps, that
  is its value at the start of the update; the coefficient read, \<^verbatim>\<open>backward\<close>, the
  optimizer step and the schedule step occur once each in this order; and the update
  leaves the schedule stepped exactly once more.
\<close>

theorem coefficient_stepped_after_optimizer:
  assumes "run_updates io k s = Inr sk"
    and "episode_rollout io sk = Inr ((final_value, entropy), s1)"
    and "icm io (num_envs (params s1)) (buffer_states (storage s1)) (buffer_actions (storage s1))
             (react io ZeroGrad (world s1)) = ((feature, feature_pred, a_t_pred), w)"
    and "storage_a2c_loss (storage s1) final_value = (policy_loss, value_loss, rews)"
    and "loss = t_sub (t_add (a2c_loss (params s) entropy policy_loss value_loss)
                         (icm_loss (net_num_actions io w) feature feature_pred a_t_pred
                            (buffer_actions (storage s1))))
                  (t_scale (sched_value ((sched_step ^^ k) (curiosity_coeff (params s))))
                     (curiosity_loss (buffer_next_features (storage s1)) feature_pred))"
    and "wo = react io OptimizerStep
                  (react io (LoggerLog rews (data feature))
                     (react io (ClipGradNorm (max_grad_norm (params s)))
                        (react io (Backward loss False) w)))"
  shows "\<exists>s'. update io k sk = Inr s' \<and> run_updates io (Suc k) s = Inr s'
     \<and> curiosity_coeff (params sk) = (sched_step ^^ k) (curiosity_coeff (params s))
     \<and> filter is_coeff_event (events_since sk s')
         = [CoeffValue (sched_value ((sched_step ^^ k) (curiosity_coeff (params s)))),
            Backward loss False, OptimizerStep, CoeffStep]
     \<and> world s' = (if k mod 100 = 0
                    then react io PrintRewardStats (react io (Print (data loss) k) wo)
                    else wo)
     \<and> curiosity_coeff (params s') = sched_step ((sched_step ^^ k) (curiosity_coeff (params s)))
     \<and> params s' = (params s)\<lparr>curiosity_coeff := (sched_step ^^ Suc k) (curiosity_coeff (params s))\<rparr>"
proof -
  have p: "params sk = (params s)\<lparr>curiosity_coeff := (sched_step ^^ k) (curiosity_coeff (params s))\<rparr>"
    by (rule run_updates_facts(1) [OF assms(1)])
  have l: "loss = total_loss (params sk) (net_num_actions io w)
                  (buffer_next_features (storage s1)) entropy policy_loss value_loss feature
                  feature_pred a_t_pred (buffer_actions (storage s1))"
    by (simp add: assms(5) total_loss_def a2c_loss_def p)
  have wo: "wo = react io OptimizerStep
                  (react io (LoggerLog rews (data feature))
                     (react io (ClipGradNorm (max_grad_norm (params sk)))
                        (react io (Backward loss False) w)))"
    by (simp add: assms(6) p)
  obtain s' where u: "update io k sk = Inr s'"
     "world s' = (if k mod 100 = 0
                    then react io PrintRewardStats (react io (Print (data loss) k) wo)
                    else wo)"
     "params s' = (params sk)\<lparr>curiosity_coeff := sched_step (curiosity_coeff (params sk))\<rparr>"
     "filter is_coeff_event (events_since sk s')
         = [CoeffValue (sched_value (curiosity_coeff (params sk))), Backward loss False,
            OptimizerStep, CoeffStep]"
    using update_after_rollout [OF assms(2,3,4) l wo, of k] by blast
  show ?thesis
    apply (rule exI [where x = s'])
    apply (intro conjI)
          apply (rule u(1))
         apply (simp add: assms(1) u(1))
        apply (simp add: p)
       apply (simp add: u(4) p)
      apply (rule u(2))
     apply (simp add: u(3) p)
    apply (simp add: u(3) p)
    done
qed

text \<open>
  C6. In every update whose rollout returned, the optimisation calls are exactly, in
  this order: zeroing of the gradients, \<^verbatim>\<open>backward\<close> of the total objective with
  \<^verbatim>\<open>retain_graph=False\<close>, clipping of the gradient norm to the configured
  \<^verbatim>\<open>max_grad_norm\<close>, and the optimizer step; the collaborators are left in the state
  these calls produce, in this order, from the state the curiosity module's query left.
\<close>

theorem optimization_step_order:
  assumes "run_updates io k s = Inr sk"
    and "episode_rollout io sk = Inr ((final_value, entropy), s1)"
    and "icm io (num_envs (params s1)) (buffer_states (storage s1)) (buffer_actions (storage s1))
             (react io ZeroGrad (world s1)) = ((feature, feature_pred, a_t_pred), w)"
    and "storage_a2c_loss (storage s1) final_value = (policy_loss, value_loss, rews)"
    and "loss = total_loss (params sk) (net_num_actions io w) (buffer_next_features (storage s1))
                  entropy policy_loss value_loss feature feature_pred a_t_pred
                  (buffer_actions (storage s1))"
    and "wo = react io OptimizerStep
                  (react io (LoggerLog rews (data feature))
                     (react io (ClipGradNorm (max_grad_norm (params s)))
                        (react io (Backward loss False) w)))"
  shows "\<exists>s'. update io k sk = Inr s' \<and> run_updates io (Suc k) s = Inr s'
     \<and> filter is_optim_event (events_since sk s')
         = [ZeroGrad, Backward loss False, ClipGradNorm (max_grad_norm (params s)),
            OptimizerStep]
     \<and> world s' = (if k mod 100 = 0
                    then react io PrintRewardStats (react io (Print (data loss) k) wo)
                    else wo)"
proof -
  have p: "params sk = (params s)\<lparr>curiosity_coeff := (sched_step ^^ k) (curiosity_coeff (params s))\<rparr>"
    by (rule run_updates_facts(1) [OF assms(1)])
  have g: "max_grad_norm (params sk) = max_grad_norm (params s)" by (simp add: p)
  have wo: "wo = react io OptimizerStep
                  (react io (LoggerLog rews (data feature))
                     (react io (ClipGradNorm (max_grad_norm (params sk)))
                        (react io (Backward loss False) w)))"
    by (simp add: assms(6) g)
  obtain s' where u: "update io k sk = Inr s'"
     "world s' = (if k mod 100 = 0
                    then react io PrintRewardStats (react io (Print (data loss) k) wo)
                    else wo)"
     "filter is_optim_event (events_since sk s')
         = [ZeroGrad, Backward loss False, ClipGradNorm (max_grad_norm (params sk)),
            OptimizerStep]"
    using update_after_rollout [OF assms(2,3,4,5) wo, of k] by blast
  show ?thesis
    apply (rule exI [where x = s'])
    apply (intro conjI)
       apply (rule u(1))
      apply (simp add: assms(1) u(1))
     apply (simp add: u(3) g)
    apply (rule u(2))
    done
qed



section \<open>The seed\<close>

lemma seed_logged: "logged ev (s\<lparr>seed := x\<rparr>) = (logged ev s)\<lparr>seed := x\<rparr>"
  by (simp add: logged_def)

lemma seed_tell: "tell io ev (s\<lparr>seed := x\<rparr>) = (tell io ev s)\<lparr>seed := x\<rparr>"
  by (simp add: tell_def)

lemma seed_rollout_step:
  "rollout_step io t v (s\<lparr>seed := x\<rparr>)
     = (fst (rollout_step io t v s), (snd (rollout_step io t v s))\<lparr>seed := x\<rparr>)"
  by (simp add: rollout_step_def Let_def logged_def tell_def split: prod.splits)

lemma seed_rollout_loop:
  "rollout_loop io n (s\<lparr>seed := x\<rparr>)
     = (fst (rollout_loop io n s), (snd (rollout_loop io n s))\<lparr>seed := x\<rparr>)"
  by (induction n) (simp_all add: rollout_loop_Suc seed_rollout_step del: rollout_loop.simps(2))

lemma seed_episode_rollout:
  "episode_rollout io (s\<lparr>seed := x\<rparr>)
     = map_sum id (\<lambda>(r, s'). (r, s'\<lparr>seed := x\<rparr>)) (episode_rollout io s)"
  unfolding episode_rollout_def seed_rollout_loop
  by (cases "rollout_loop io (rollout_size (params s)) s")
     (simp add: Let_def logged_def split: prod.splits option.splits)

lemma seed_assemble_loss:
  "assemble_loss io fv ent (s\<lparr>seed := x\<rparr>)
     = (fst (assemble_loss io fv ent s), (snd (assemble_loss io fv ent s))\<lparr>seed := x\<rparr>)"
  by (simp add: assemble_loss_def Let_def logged_def tell_def split: prod.splits)

lemma seed_optimization_step:
  "optimization_step io loss rews feature (s\<lparr>seed := x\<rparr>)
     = (optimization_step io loss rews feature s)\<lparr>seed := x\<rparr>"
  by (simp add: optimization_step_def Let_def tell_def)

lemma seed_bookkeeping:
  "bookkeeping io k loss (s\<lparr>seed := x\<rparr>) = (bookkeeping io k loss s)\<lparr>seed := x\<rparr>"
  by (simp add: bookkeeping_def Let_def tell_def logged_def)

lemma seed_update:
  "update io k (s\<lparr>seed := x\<rparr>) = map_sum id (\<lambda>s'. s'\<lparr>seed := x\<rparr>) (update io k s)"
proof (cases "episode_rollout io s")
  case (Inl e)
  then show ?thesis by (simp add: update_def seed_episode_rollout)
next
  case (Inr r)
  obtain fv ent s1 where r: "r = ((fv, ent), s1)" by (cases r) auto
  obtain loss rews feature s2 where a: "assemble_loss io fv ent s1 = ((loss, rews, feature), s2)"
    by (metis surj_pair)
  show ?thesis
    by (simp add: update_def seed_episode_rollout Inr r seed_assemble_loss a
        seed_optimization_step seed_bookkeeping)
qed

lemma seed_run_updates:
  "run_updates io n (s\<lparr>seed := x\<rparr>) = map_sum id (\<lambda>s'. s'\<lparr>seed := x\<rparr>) (run_updates io n s)"
proof (induction n)
  case 0
  show ?case by simp
next
  case (Suc n)
  show ?case
    by (cases "run_updates io n s") (simp_all add: Suc seed_update id_def)
qed

lemma seed_train:
  "train io (s\<lparr>seed := x\<rparr>) = map_sum id (\<lambda>s'. s'\<lparr>seed := x\<rparr>) (train io s)"
proof -
  obtain ob w where rs: "env_reset io (world s) = (ob, w)" by force
  define s0 where "s0 = logged CopyState0
     ((logged EnvReset (s\<lparr>world := w\<rparr>))\<lparr>storage := reset_initial (storage s) ob\<rparr>)"
  have a: "logged CopyState0
     ((logged EnvReset (s\<lparr>seed := x, world := w\<rparr>))\<lparr>storage := reset_initial (storage s) ob\<rparr>)
     = s0\<lparr>seed := x\<rparr>"
    by (simp add: s0_def logged_def)
  have p: "params s0 = params s" by (simp add: s0_def)
  have 1: "train io s = (case run_updates io (num_updates (params s)) s0 of
           Inl e \<Rightarrow> Inl e
         | Inr s \<Rightarrow>
             (let s = tell io EnvClose s;
                  s = tell io LoggerSave s;
                  s = tell io (ParamsSave (logger_data_dir io (world s)) (timestamp s)) s
              in Inr s))"
    by (simp add: train_def rs s0_def)
  have 2: "train io (s\<lparr>seed := x\<rparr>) = (case run_updates io (num_updates (params s)) (s0\<lparr>seed := x\<rparr>) of
           Inl e \<Rightarrow> Inl e
         | Inr s \<Rightarrow>
             (let s = tell io EnvClose s;
                  s = tell io LoggerSave s;
                  s = tell io (ParamsSave (logger_data_dir io (world s)) (timestamp s)) s
              in Inr s))"
    using a by (simp add: train_def rs)
  show ?thesis
    unfolding 1 2 seed_run_updates
    by (cases "run_updates io (num_updates (params s)) s0")
       (simp_all add: seed_tell Let_def)
qed

text \<open>
  C10. The seed given to the constructor is stored and never read: two Runners built
  from inputs that differ only in the seed differ only in the stored seed, and every
  update and the whole training run started from two states that differ only in the
  seed fail alike or end in states that differ only in the seed (same calls in the same
  order, same buffer, same configuration, same state of the collaborators).
\<close>

theorem seed_not_read:
  "init io w gamma p cuda x log_dir = (init io w gamma p cuda y log_dir)\<lparr>seed := x\<rparr>
   \<and> update io k (s\<lparr>seed := x\<rparr>) = map_sum id (\<lambda>s'. s'\<lparr>seed := x\<rparr>) (update io k s)
   \<and> train io (s\<lparr>seed := x\<rparr>) = map_sum id (\<lambda>s'. s'\<lparr>seed := x\<rparr>) (train io s)"
  by (simp add: seed_update seed_train init_def Let_def tell_def)

section \<open>The small run as an instance\<close>

lemma toy_runner_facts:
  "params toy_runner = toy_params"
  "dom (actions (storage toy_runner)) = {}"
  "dom (rewards (storage toy_runner)) = {}"
  "dom (features (storage toy_runner)) = {}"
  "st_rollout_size (storage toy_runner) = 4"
  "params no_rollout_runner = toy_params\<lparr>rollout_size := 0\<rparr>"
  by (simp_all add: toy_runner_def no_rollout_runner_def init_def Let_def toy_io_def
      RolloutStorage_def toy_params_def)

lemma toy_replies:
  assumes "0 < rollout_size (params sk)"
  shows "\<exists>fv ent s1 w pl vl rews p v.
       episode_rollout toy_io sk = Inr ((fv, ent), s1)
     \<and> icm toy_io (num_envs (params s1)) (buffer_states (storage s1))
          (buffer_actions (storage s1)) (react toy_io ZeroGrad (world s1))
         = ((\<lparr>data = [1, 1, 1, 1], leaves = {''icm_encoder''}\<rparr>,
             \<lparr>data = [0, 1, 0, 1], leaves = {''icm_forward''}\<rparr>,
             \<lparr>data = [0, 0, 0, 0, 0, 0, 0, 0], leaves = {''icm_inverse''}\<rparr>), w)
     \<and> storage_a2c_loss (storage s1) fv = (pl, vl, rews)
     \<and> data pl = [p] \<and> data vl = [v]"
proof -
  obtain fv ent s1 where r: "episode_rollout toy_io sk = Inr ((fv, ent), s1)"
    using episode_rollout_pinned [OF assms, of toy_io] by blast
  obtain pl vl rews where a: "storage_a2c_loss (storage s1) fv = (pl, vl, rews)"
    by (metis surj_pair)
  have "\<exists>p v. data pl = [p] \<and> data vl = [v]"
    using a
    by (auto simp: storage_a2c_loss_def compute_a2c_terms_def Let_def t_neg_def t_mean_def)
  then show ?thesis
    using r a by (simp add: toy_io_def)
qed

lemma toy_entropy:
  assumes "0 < n"
  shows "data (rollout_entropy toy_io s n) = [real n / 2]"
proof -
  have "\<forall>t<n. data (reply_entropy (step_reply toy_io s t)) = [1 / 2]"
    by (simp add: step_reply_def reply_entropy_def toy_io_def)
  from rollout_entropy_data [OF assms this] show ?thesis by simp
qed

theorem rollout_fills_buffer_witness:
  "0 < rollout_size (params toy_runner)
   \<and> (\<exists>s'. episode_rollout toy_io toy_runner
          = Inr ((detach (reply_value (step_reply toy_io toy_runner 4)),
                  rollout_entropy toy_io toy_runner 4), s')
        \<and> insert_indices (events_since toy_runner s') = [0..<4]
        \<and> drop 24 (events_since toy_runner s') = [GetState 4, GetAction False, CopyFeature 4]
        \<and> world s' = snd (step_reply toy_io toy_runner 4)
        \<and> features (storage s') 4 = Some \<lparr>data = [1], leaves = {}\<rparr>
        \<and> features (storage s') 3 = Some \<lparr>data = [1], leaves = {''encoder''}\<rparr>
        \<and> card (dom (actions (storage s'))) = 4
        \<and> card (dom (features (storage s'))) = 5)"
proof -
  have h: "0 < rollout_size (params toy_runner)"
    by (simp add: toy_runner_facts toy_params_def)
  have T: "rollout_size (params toy_runner) = 4"
    by (simp add: toy_runner_facts toy_params_def)
  have f: "reply_features (step_reply toy_io toy_runner t) = \<lparr>data = [1], leaves = {''encoder''}\<rparr>"
    for t
    by (simp add: step_reply_def reply_features_def toy_io_def)
  show ?thesis
    using rollout_fills_buffer [OF h, of toy_io] h
    unfolding T by (auto simp: toy_runner_facts f detach_def)
qed

theorem reset_before_next_state_witness:
  "3 < rollout_size (params toy_runner)
   \<and> (\<exists>s'. episode_rollout toy_io toy_runner
          = Inr ((detach (reply_value (step_reply toy_io toy_runner 4)),
                  rollout_entropy toy_io toy_runner 4), s')
        \<and> take 7 (drop (6 * 3) (events_since toy_runner s'))
             = [GetState 3, GetAction True,
                EnvStep (reply_actions (step_reply toy_io toy_runner 3))
                  (answer_dones (step_answer toy_io toy_runner 3)),
                LogEpisodeRewards (answer_infos (step_answer toy_io toy_runner 3)),
                Insert 3 (answer_dones (step_answer toy_io toy_runner 3)),
                ResetRecurrent (answer_dones (step_answer toy_io toy_runner 3)),
                GetState (Suc 3)]
        \<and> world (snd (rollout_loop toy_io (Suc 3) toy_runner))
             = Suc (Suc (snd (step_answer toy_io toy_runner 3))))"
proof -
  have h: "3 < rollout_size (params toy_runner)"
    by (simp add: toy_runner_facts toy_params_def)
  have T: "rollout_size (params toy_runner) = 4"
    by (simp add: toy_runner_facts toy_params_def)
  have r: "react toy_io ev w = Suc w" for ev w by (simp add: toy_io_def)
  show ?thesis
    using reset_before_next_state [OF h, of toy_io] h
    unfolding T r by blast
qed

theorem backward_objective_value_witness:
  "\<exists>final_value s1 w policy_loss value_loss rews pl vl s'.
      episode_rollout toy_io toy_runner
        = Inr ((final_value, rollout_entropy toy_io toy_runner 4), s1)
    \<and> icm toy_io (num_envs (params s1)) (buffer_states (storage s1))
          (buffer_actions (storage s1)) (react toy_io ZeroGrad (world s1))
         = ((\<lparr>data = [1, 1, 1, 1], leaves = {''icm_encoder''}\<rparr>,
             \<lparr>data = [0, 1, 0, 1], leaves = {''icm_forward''}\<rparr>,
             \<lparr>data = [0, 0, 0, 0, 0, 0, 0, 0], leaves = {''icm_inverse''}\<rparr>), w)
    \<and> storage_a2c_loss (storage s1) final_value = (policy_loss, value_loss, rews)
    \<and> data policy_loss = [pl] \<and> data value_loss = [vl]
    \<and> data (rollout_entropy toy_io toy_runner 4) = [2]
    \<and> update toy_io 0 toy_runner = Inr s'
    \<and> filter is_optim_event (events_since toy_runner s')
         = [ZeroGrad,
            Backward (total_loss (params toy_runner) (net_num_actions toy_io w)
                        (buffer_next_features (storage s1)) (rollout_entropy toy_io toy_runner 4)
                        policy_loss value_loss
                        \<lparr>data = [1, 1, 1, 1], leaves = {''icm_encoder''}\<rparr>
                        \<lparr>data = [0, 1, 0, 1], leaves = {''icm_forward''}\<rparr>
                        \<lparr>data = [0, 0, 0, 0, 0, 0, 0, 0], leaves = {''icm_inverse''}\<rparr>
                        (buffer_actions (storage s1))) False,
            ClipGradNorm (max_grad_norm (params toy_runner)), OptimizerStep]"
proof -
  have h: "0 < rollout_size (params toy_runner)"
    by (simp add: toy_runner_facts toy_params_def)
  have T: "rollout_size (params toy_runner) = 4"
    by (simp add: toy_runner_facts toy_params_def)
  obtain fv ent s1 w pl vl rews p v where
    r: "episode_rollout toy_io toy_runner = Inr ((fv, ent), s1)"
    and i: "icm toy_io (num_envs (params s1)) (buffer_states (storage s1))
          (buffer_actions (storage s1)) (react toy_io ZeroGrad (world s1))
         = ((\<lparr>data = [1, 1, 1, 1], leaves = {''icm_encoder''}\<rparr>,
             \<lparr>data = [0, 1, 0, 1], leaves = {''icm_forward''}\<rparr>,
             \<lparr>data = [0, 0, 0, 0, 0, 0, 0, 0], leaves = {''icm_inverse''}\<rparr>), w)"
    and a: "storage_a2c_loss (storage s1) fv = (pl, vl, rews)"
    and sc: "data pl = [p]" "data vl = [v]"
    using toy_replies [OF h] by blast
  have e: "ent = rollout_entropy toy_io toy_runner 4"
    using episode_rollout_result(2) [OF r] by (simp add: T)
  have en: "data ent = [2]"
    unfolding e using toy_entropy [of 4 toy_runner] by simp
  obtain s' where u: "update toy_io 0 toy_runner = Inr s'"
    "filter is_optim_event (events_since toy_runner s')
         = [ZeroGrad,
            Backward (total_loss (params toy_runner) (net_num_actions toy_io w)
                        (buffer_next_features (storage s1)) ent pl vl
                        \<lparr>data = [1, 1, 1, 1], leaves = {''icm_encoder''}\<rparr>
                        \<lparr>data = [0, 1, 0, 1], leaves = {''icm_forward''}\<rparr>
                        \<lparr>data = [0, 0, 0, 0, 0, 0, 0, 0], leaves = {''icm_inverse''}\<rparr>
                        (buffer_actions (storage s1))) False,
            ClipGradNorm (max_grad_norm (params toy_runner)), OptimizerStep]"
    using backward_objective_value [OF r i a refl refl sc en, of 0] by blast
  show ?thesis
    using r i a sc en u unfolding e by blast
qed

theorem rollout_needs_a_step_witness:
  "rollout_size (params no_rollout_runner) = 0
   \<and> episode_rollout toy_io no_rollout_runner = Inl UnboundLocalError
   \<and> 0 < rollout_size (params toy_runner)
   \<and> (\<exists>r. episode_rollout toy_io toy_runner = Inr r)"
  using rollout_needs_a_step [of no_rollout_runner toy_io 0]
        rollout_needs_a_step [of toy_runner toy_io 0]
  by (simp add: toy_runner_facts toy_params_def)

theorem seed_not_read_witness:
  "init toy_io 0 (99 / 100) toy_params True 7 ''/data/patrik'' = toy_runner\<lparr>seed := 7\<rparr>
   \<and> map_sum id trace (train toy_io (toy_runner\<lparr>seed := 7\<rparr>))
     = map_sum id trace (train toy_io toy_runner)"
proof -
  have i: "init toy_io 0 (99 / 100) toy_params True 7 ''/data/patrik''
      = (init toy_io 0 (99 / 100) toy_params True 42 ''/data/patrik'')\<lparr>seed := 7\<rparr>"
    and t: "train toy_io (toy_runner\<lparr>seed := 7\<rparr>)
      = map_sum id (\<lambda>s'. s'\<lparr>seed := 7\<rparr>) (train toy_io toy_runner)"
    using seed_not_read [of toy_io 0 "99 / 100" toy_params True 7 "''/data/patrik''" 42 0
        toy_runner]
    by simp_all
  have "map_sum id trace (train toy_io (toy_runner\<lparr>seed := 7\<rparr>))
     = map_sum id trace (train toy_io toy_runner)"
    by (cases "train toy_io toy_runner") (simp_all add: t)
  then show ?thesis by (simp add: i toy_runner_def)
qed

theorem curiosity_gradient_in_update_witness:
  "\<exists>final_value entropy s1 w policy_loss value_loss rews s'.
      episode_rollout toy_io toy_runner = Inr ((final_value, entropy), s1)
    \<and> icm toy_io (num_envs (params s1)) (buffer_states (storage s1))
          (buffer_actions (storage s1)) (react toy_io ZeroGrad (world s1))
         = ((\<lparr>data = [1, 1, 1, 1], leaves = {''icm_encoder''}\<rparr>,
             \<lparr>data = [0, 1, 0, 1], leaves = {''icm_forward''}\<rparr>,
             \<lparr>data = [0, 0, 0, 0, 0, 0, 0, 0], leaves = {''icm_inverse''}\<rparr>), w)
    \<and> storage_a2c_loss (storage s1) final_value = (policy_loss, value_loss, rews)
    \<and> st_rollout_size (storage toy_runner) = rollout_size (params toy_runner)
    \<and> update toy_io 0 toy_runner = Inr s'
    \<and> data (curiosity_loss (buffer_next_features (storage s1))
               \<lparr>data = [0, 1, 0, 1], leaves = {''icm_forward''}\<rparr>) = [1 / 2]
    \<and> leaves (curiosity_loss (buffer_next_features (storage s1))
                 \<lparr>data = [0, 1, 0, 1], leaves = {''icm_forward''}\<rparr>) = {''encoder''}
    \<and> leaves (loss_fwd \<lparr>data = [0, 1, 0, 1], leaves = {''icm_forward''}\<rparr>
                 \<lparr>data = [1, 1, 1, 1], leaves = {''icm_encoder''}\<rparr>)
        = {''icm_forward'', ''icm_encoder''}"
proof -
  have h: "0 < rollout_size (params toy_runner)"
    by (simp add: toy_runner_facts toy_params_def)
  have T: "rollout_size (params toy_runner) = 4"
    by (simp add: toy_runner_facts toy_params_def)
  have c: "st_rollout_size (storage toy_runner) = rollout_size (params toy_runner)"
    by (simp add: toy_runner_facts toy_params_def)
  have f: "reply_features (step_reply toy_io toy_runner t) = \<lparr>data = [1], leaves = {''encoder''}\<rparr>"
    for t
    by (simp add: step_reply_def reply_features_def toy_io_def)
  obtain fv ent s1 w pl vl rews where
    r: "episode_rollout toy_io toy_runner = Inr ((fv, ent), s1)"
    and i: "icm toy_io (num_envs (params s1)) (buffer_states (storage s1))
          (buffer_actions (storage s1)) (react toy_io ZeroGrad (world s1))
         = ((\<lparr>data = [1, 1, 1, 1], leaves = {''icm_encoder''}\<rparr>,
             \<lparr>data = [0, 1, 0, 1], leaves = {''icm_forward''}\<rparr>,
             \<lparr>data = [0, 0, 0, 0, 0, 0, 0, 0], leaves = {''icm_inverse''}\<rparr>), w)"
    and a: "storage_a2c_loss (storage s1) fv = (pl, vl, rews)"
    using toy_replies [OF h] by blast
  obtain s' where u: "update toy_io 0 toy_runner = Inr s'"
    "data (curiosity_loss (buffer_next_features (storage s1))
             \<lparr>data = [0, 1, 0, 1], leaves = {''icm_forward''}\<rparr>)
       = [mean_val (map (\<lambda>x. x\<^sup>2)
              (map2 (-) (concat (map (\<lambda>t. data (reply_features (step_reply toy_io toy_runner t)))
                                   [1..<Suc (rollout_size (params toy_runner))]))
                        (data \<lparr>data = [0, 1, 0, 1], leaves = {''icm_forward''}\<rparr>)))]"
    "leaves (curiosity_loss (buffer_next_features (storage s1))
               \<lparr>data = [0, 1, 0, 1], leaves = {''icm_forward''}\<rparr>)
       = (\<Union>t \<in> {1..<rollout_size (params toy_runner)}.
             leaves (reply_features (step_reply toy_io toy_runner t)))"
    "leaves (loss_fwd \<lparr>data = [0, 1, 0, 1], leaves = {''icm_forward''}\<rparr>
                 \<lparr>data = [1, 1, 1, 1], leaves = {''icm_encoder''}\<rparr>)
       = leaves \<lparr>data = [0, 1, 0, 1], leaves = {''icm_forward''}\<rparr>
         \<union> leaves \<lparr>data = [1, 1, 1, 1], leaves = {''icm_encoder''}\<rparr>"
    using curiosity_gradient_in_update [OF r i a refl refl c, of 0] by blast
  have up: "[1..<Suc 4] = [1, 2, 3, 4]" by code_simp
  have d: "data (curiosity_loss (buffer_next_features (storage s1))
             \<lparr>data = [0, 1, 0, 1], leaves = {''icm_forward''}\<rparr>) = [1 / 2]"
    unfolding u(2) T f up by (simp add: mean_val_def)
  have l: "leaves (curiosity_loss (buffer_next_features (storage s1))
               \<lparr>data = [0, 1, 0, 1], leaves = {''icm_forward''}\<rparr>) = {''encoder''}"
    unfolding u(3) T f by auto
  have l2: "leaves (loss_fwd \<lparr>data = [0, 1, 0, 1], leaves = {''icm_forward''}\<rparr>
                 \<lparr>data = [1, 1, 1, 1], leaves = {''icm_encoder''}\<rparr>)
        = {''icm_forward'', ''icm_encoder''}"
    unfolding u(4) by auto
  show ?thesis
    using r i a c u(1) d l l2 by blast
qed

theorem coefficient_stepped_after_optimizer_witness:
  "\<exists>sk final_value entropy s1 feature feature_pred a_t_pred w policy_loss value_loss rews
      loss s'.
      run_updates toy_io 2 toy_runner = Inr sk
    \<and> episode_rollout toy_io sk = Inr ((final_value, entropy), s1)
    \<and> icm toy_io (num_envs (params s1)) (buffer_states (storage s1))
          (buffer_actions (storage s1)) (react toy_io ZeroGrad (world s1))
         = ((feature, feature_pred, a_t_pred), w)
    \<and> storage_a2c_loss (storage s1) final_value = (policy_loss, value_loss, rews)
    \<and> loss = t_sub (t_add (a2c_loss (params toy_runner) entropy policy_loss value_loss)
                       (icm_loss (net_num_actions toy_io w) feature feature_pred a_t_pred
                          (buffer_actions (storage s1))))
                (t_scale (81 / 100)
                   (curiosity_loss (buffer_next_features (storage s1)) feature_pred))
    \<and> update toy_io 2 sk = Inr s'
    \<and> run_updates toy_io (Suc 2) toy_runner = Inr s'
    \<and> filter is_coeff_event (events_since sk s')
         = [CoeffValue (81 / 100), Backward loss False, OptimizerStep, CoeffStep]
    \<and> sched_value (curiosity_coeff (params s')) = 729 / 1000"
proof -
  have h: "0 < rollout_size (params toy_runner)"
    by (simp add: toy_runner_facts toy_params_def)
  have c: "sched_value ((sched_step ^^ 2) (curiosity_coeff (params toy_runner))) = 81 / 100"
    "sched_value (sched_step ((sched_step ^^ 2) (curiosity_coeff (params toy_runner))))
       = 729 / 1000"
    by (simp_all add: toy_runner_facts toy_params_def sched_step_def numeral_2_eq_2)
  obtain sk where k: "run_updates toy_io 2 toy_runner = Inr sk"
    using run_updates_returns [OF h, of toy_io 2] by blast
  have hk: "0 < rollout_size (params sk)"
    using run_updates_facts(1) [OF k] h by simp
  obtain fv ent s1 w pl vl rews where
    r: "episode_rollout toy_io sk = Inr ((fv, ent), s1)"
    and i: "icm toy_io (num_envs (params s1)) (buffer_states (storage s1))
          (buffer_actions (storage s1)) (react toy_io ZeroGrad (world s1))
         = ((\<lparr>data = [1, 1, 1, 1], leaves = {''icm_encoder''}\<rparr>,
             \<lparr>data = [0, 1, 0, 1], leaves = {''icm_forward''}\<rparr>,
             \<lparr>data = [0, 0, 0, 0, 0, 0, 0, 0], leaves = {''icm_inverse''}\<rparr>), w)"
    and a: "storage_a2c_loss (storage s1) fv = (pl, vl, rews)"
    using toy_replies [OF hk] by blast
  from coefficient_stepped_after_optimizer [OF k r i a refl refl]
  obtain s' where u: "update toy_io 2 sk = Inr s'"
    "run_updates toy_io (Suc 2) toy_runner = Inr s'"
    "filter is_coeff_event (events_since sk s')
         = [CoeffValue (sched_value ((sched_step ^^ 2) (curiosity_coeff (params toy_runner)))),
            Backward (t_sub (t_add (a2c_loss (params toy_runner) ent pl vl)
                       (icm_loss (net_num_actions toy_io w)
                          \<lparr>data = [1, 1, 1, 1], leaves = {''icm_encoder''}\<rparr>
                          \<lparr>data = [0, 1, 0, 1], leaves = {''icm_forward''}\<rparr>
                          \<lparr>data = [0, 0, 0, 0, 0, 0, 0, 0], leaves = {''icm_inverse''}\<rparr>
                          (buffer_actions (storage s1))))
                (t_scale (sched_value ((sched_step ^^ 2) (curiosity_coeff (params toy_runner))))
                   (curiosity_loss (buffer_next_features (storage s1))
                      \<lparr>data = [0, 1, 0, 1], leaves = {''icm_forward''}\<rparr>))) False,
            OptimizerStep, CoeffStep]"
    "curiosity_coeff (params s')
       = sched_step ((sched_step ^^ 2) (curiosity_coeff (params toy_runner)))"
    by blast
  have v: "sched_value (curiosity_coeff (params s')) = 729 / 1000"
    unfolding u(4) by (rule c(2))
  show ?thesis
    using k r i a u(1,2) u(3) [unfolded c(1)] v by blast
qed

theorem optimization_step_order_witness:
  "\<exists>sk final_value entropy s1 feature feature_pred a_t_pred w policy_loss value_loss rews s'.
      run_updates toy_io 0 toy_runner = Inr sk
    \<and> episode_rollout toy_io sk = Inr ((final_value, entropy), s1)
    \<and> icm toy_io (num_envs (params s1)) (buffer_states (storage s1))
          (buffer_actions (storage s1)) (react toy_io ZeroGrad (world s1))
         = ((feature, feature_pred, a_t_pred), w)
    \<and> storage_a2c_loss (storage s1) final_value = (policy_loss, value_loss, rews)
    \<and> update toy_io 0 sk = Inr s'
    \<and> filter is_optim_event (events_since sk s')
         = [ZeroGrad,
            Backward (total_loss (params sk) (net_num_actions toy_io w)
                        (buffer_next_features (storage s1)) entropy policy_loss value_loss
                        feature feature_pred a_t_pred (buffer_actions (storage s1))) False,
            ClipGradNorm (1 / 2), OptimizerStep]
    \<and> world s' = Suc (Suc (Suc (Suc (Suc (Suc w)))))"
proof -
  have h: "0 < rollout_size (params toy_runner)"
    by (simp add: toy_runner_facts toy_params_def)
  have g: "max_grad_norm (params toy_runner) = 1 / 2"
    by (simp add: toy_runner_facts toy_params_def)
  have re: "react toy_io ev x = Suc x" for ev x by (simp add: toy_io_def)
  have k: "run_updates toy_io 0 toy_runner = Inr toy_runner" by simp
  obtain fv ent s1 w pl vl rews where
    r: "episode_rollout toy_io toy_runner = Inr ((fv, ent), s1)"
    and i: "icm toy_io (num_envs (params s1)) (buffer_states (storage s1))
          (buffer_actions (storage s1)) (react toy_io ZeroGrad (world s1))
         = ((\<lparr>data = [1, 1, 1, 1], leaves = {''icm_encoder''}\<rparr>,
             \<lparr>data = [0, 1, 0, 1], leaves = {''icm_forward''}\<rparr>,
             \<lparr>data = [0, 0, 0, 0, 0, 0, 0, 0], leaves = {''icm_inverse''}\<rparr>), w)"
    and a: "storage_a2c_loss (storage s1) fv = (pl, vl, rews)"
    using toy_replies [OF h] by blast
  from optimization_step_order [OF k r i a refl refl]
  obtain s' where u: "update toy_io 0 toy_runner = Inr s'"
    "filter is_optim_event (events_since toy_runner s')
         = [ZeroGrad,
            Backward (total_loss (params toy_runner) (net_num_actions toy_io w)
                        (buffer_next_features (storage s1)) ent pl vl
                        \<lparr>data = [1, 1, 1, 1], leaves = {''icm_encoder''}\<rparr>
                        \<lparr>data = [0, 1, 0, 1], leaves = {''icm_forward''}\<rparr>
                        \<lparr>data = [0, 0, 0, 0, 0, 0, 0, 0], leaves = {''icm_inverse''}\<rparr>
                        (buffer_actions (storage s1))) False,
            ClipGradNorm (1 / 2), OptimizerStep]"
    "world s' = Suc (Suc (Suc (Suc (Suc (Suc w)))))"
    unfolding g re by auto
  show ?thesis
    using k r i a u by blast
qed



end
